theory Spec2Isabelle
  imports Main "HOL-Library.AList"
begin

section \<open>Python values used by the seeding script\<close>

text \<open>
  The script \<^verbatim>\<open>scripts/seed.py\<close> reads cells of a workbook, coerces them with the
  helpers \<^verbatim>\<open>n\<close>, \<^verbatim>\<open>s\<close> and \<^verbatim>\<open>i\<close>, builds dictionaries and posts them to a REST
  backend. This section embeds the Python values and built-ins those steps rest on.

  Exceptions are values: a computation that can raise returns \<open>pyerror + 'a\<close>, with
  \<open>Inl\<close> for the exception.
\<close>

datatype pyerror =
  TypeError | ValueError | OverflowError | ZeroDivisionError | KeyError | IndexError
  | SystemExit int

subsection \<open>Strings\<close>

text \<open>
  A string is a list of code points from U+0000 to U+00FF, one \<open>char\<close> each; code points
  above U+00FF have no \<open>char\<close>. \<^verbatim>\<open>str.strip()\<close> removes the characters for which
  \<^verbatim>\<open>str.isspace()\<close> holds: in this range the ASCII blanks, U+0085 and U+00A0.
  \<^verbatim>\<open>str.lower()\<close> maps \<open>A\<close> to \<open>Z\<close>, U+00C0 to U+00D6 and U+00D8 to U+00DE to the code
  point 32 above and leaves every other character of the range as it is.
\<close>

definition py_isspace :: "char \<Rightarrow> bool" where
  "py_isspace c = (c \<in> set [CHR 0x09, CHR 0x0A, CHR 0x0B, CHR 0x0C, CHR 0x0D,
     CHR 0x1C, CHR 0x1D, CHR 0x1E, CHR 0x1F, CHR 0x20, CHR 0x85, CHR 0xA0])"

definition py_strip :: "string \<Rightarrow> string" where
  "py_strip t = rev (dropWhile py_isspace (rev (dropWhile py_isspace t)))"

definition lower_char :: "char \<Rightarrow> char" where
  "lower_char c =
     (case map_of
        (zip (''ABCDEFGHIJKLMNOPQRSTUVWXYZ''
              @ [CHR 0xC0, CHR 0xC1, CHR 0xC2, CHR 0xC3, CHR 0xC4, CHR 0xC5, CHR 0xC6, CHR 0xC7,
                 CHR 0xC8, CHR 0xC9, CHR 0xCA, CHR 0xCB, CHR 0xCC, CHR 0xCD, CHR 0xCE, CHR 0xCF,
                 CHR 0xD0, CHR 0xD1, CHR 0xD2, CHR 0xD3, CHR 0xD4, CHR 0xD5, CHR 0xD6,
                 CHR 0xD8, CHR 0xD9, CHR 0xDA, CHR 0xDB, CHR 0xDC, CHR 0xDD, CHR 0xDE])
             (''abcdefghijklmnopqrstuvwxyz''
              @ [CHR 0xE0, CHR 0xE1, CHR 0xE2, CHR 0xE3, CHR 0xE4, CHR 0xE5, CHR 0xE6, CHR 0xE7,
                 CHR 0xE8, CHR 0xE9, CHR 0xEA, CHR 0xEB, CHR 0xEC, CHR 0xED, CHR 0xEE, CHR 0xEF,
                 CHR 0xF0, CHR 0xF1, CHR 0xF2, CHR 0xF3, CHR 0xF4, CHR 0xF5, CHR 0xF6,
                 CHR 0xF8, CHR 0xF9, CHR 0xFA, CHR 0xFB, CHR 0xFC, CHR 0xFD, CHR 0xFE])) c of
        Some d \<Rightarrow> d | None \<Rightarrow> c)"

definition py_lower :: "string \<Rightarrow> string" where
  "py_lower t = map lower_char t"

fun startswith :: "string \<Rightarrow> string \<Rightarrow> bool" where
  "startswith t [] = True"
| "startswith [] (c # cs) = False"
| "startswith (d # ds) (c # cs) = (d = c \<and> startswith ds cs)"

text \<open>\<^verbatim>\<open>sub in t\<close> for two strings.\<close>

fun str_contains :: "string \<Rightarrow> string \<Rightarrow> bool" where
  "str_contains sub [] = (sub = [])"
| "str_contains sub (c # cs) = (startswith (c # cs) sub \<or> str_contains sub cs)"

definition digit_char :: "nat \<Rightarrow> char" where
  "digit_char k = ''0123456789'' ! (k mod 10)"

function str_nat :: "nat \<Rightarrow> string" where
  "str_nat k = (if k < 10 then [digit_char k] else str_nat (k div 10) @ [digit_char k])"
  by pat_completeness auto
termination
  by (relation "measure id") auto

declare str_nat.simps [simp del]

text \<open>\<^verbatim>\<open>str(k)\<close> for an integer.\<close>

definition str_int :: "int \<Rightarrow> string" where
  "str_int k = (if k < 0 then CHR ''-'' # str_nat (nat (- k)) else str_nat (nat k))"

subsection \<open>Floats\<close>

text \<open>
  A Python float is an IEEE 754 binary64 value. \<open>Finite m e\<close> stands for the number
  \<open>m * 2 ^ e\<close>, kept in normal form (\<open>m\<close> odd, or \<open>Finite 0 0\<close> for zero), so that
  equality of values is equality of terms; the sign of zero is not kept.
  \<open>Infinity neg\<close> is \<open>-inf\<close> when \<open>neg\<close> holds and \<open>inf\<close> otherwise.

  \<open>fl a b\<close> is the double nearest to the fraction \<open>a / b\<close> (for \<open>0 < b\<close>), ties to the
  even mantissa, with 53 bits of mantissa, gradual underflow below \<open>2 ^ - 1022\<close> and
  overflow to infinity. Every float operation of the script is the exact operation on
  the fractions followed by \<open>fl\<close>.
\<close>

datatype pyfloat = Finite int int | Infinity bool | NaN

fun bit_length :: "nat \<Rightarrow> nat" where
  "bit_length k = (if k = 0 then 0 else Suc (bit_length (k div 2)))"

declare bit_length.simps [simp del]

text \<open>The quotient \<open>a / b\<close> rounded to the nearest integer, ties to even (\<open>0 < b\<close>).\<close>

definition rhe_div :: "int \<Rightarrow> int \<Rightarrow> int" where
  "rhe_div a b = (let q = a div b; r = a mod b in
     if 2 * r < b then q else if b < 2 * r then q + 1 else if even q then q else q + 1)"

text \<open>The fraction \<open>a / b * 2 ^ e\<close>, as a fraction again.\<close>

definition scale2 :: "int \<Rightarrow> int \<Rightarrow> int \<Rightarrow> int \<times> int" where
  "scale2 a b e = (if 0 \<le> e then (a * 2 ^ nat e, b) else (a, b * 2 ^ nat (- e)))"

text \<open>The integer \<open>k\<close> with \<open>2 ^ k \<le> a / b < 2 ^ (k + 1)\<close>, for positive \<open>a\<close> and \<open>b\<close>.\<close>

definition flog2 :: "int \<Rightarrow> int \<Rightarrow> int" where
  "flog2 a b = (let k = int (bit_length (nat a)) - int (bit_length (nat b)) in
     case scale2 b a k of (lo, a') \<Rightarrow> if lo \<le> a' then k else k - 1)"

function norm_me :: "int \<Rightarrow> int \<Rightarrow> pyfloat" where
  "norm_me m e = (if m = 0 then Finite 0 0
     else if even m then norm_me (m div 2) (e + 1) else Finite m e)"
  by pat_completeness auto
termination
  by (relation "measure (\<lambda>(m, e). nat \<bar>m\<bar>)") auto

declare norm_me.simps [simp del]

definition fl :: "int \<Rightarrow> int \<Rightarrow> pyfloat" where
  "fl a b = (if a = 0 then Finite 0 0 else
     let e = max (flog2 \<bar>a\<bar> b - 52) (- 1074);
         m = (case scale2 \<bar>a\<bar> b (- e) of (a', b') \<Rightarrow> rhe_div a' b') in
     if 0 \<le> e \<and> 2 ^ 1024 \<le> m * 2 ^ nat e then Infinity (a < 0)
     else norm_me (sgn a * m) e)"

text \<open>The value of a finite float as a fraction with a positive denominator.\<close>

definition frac_of :: "int \<Rightarrow> int \<Rightarrow> int \<times> int" where
  "frac_of m e = scale2 m 1 e"

text \<open>\<^verbatim>\<open>x * y\<close> on floats.\<close>

fun fmul :: "pyfloat \<Rightarrow> pyfloat \<Rightarrow> pyfloat" where
  "fmul NaN y = NaN"
| "fmul x NaN = NaN"
| "fmul (Finite m e) (Finite m' e') =
     (case frac_of (m * m') (e + e') of (a, b) \<Rightarrow> fl a b)"
| "fmul (Finite m e) (Infinity neg) = (if m = 0 then NaN else Infinity (neg \<noteq> (m < 0)))"
| "fmul (Infinity neg) (Finite m e) = (if m = 0 then NaN else Infinity (neg \<noteq> (m < 0)))"
| "fmul (Infinity neg) (Infinity neg') = Infinity (neg \<noteq> neg')"

text \<open>\<^verbatim>\<open>x - y\<close> on floats.\<close>

fun fsub :: "pyfloat \<Rightarrow> pyfloat \<Rightarrow> pyfloat" where
  "fsub NaN y = NaN"
| "fsub x NaN = NaN"
| "fsub (Finite m e) (Finite m' e') =
     (case frac_of m e of (a, b) \<Rightarrow> case frac_of m' e' of (a', b') \<Rightarrow>
        fl (a * b' - a' * b) (b * b'))"
| "fsub (Finite m e) (Infinity neg) = Infinity (\<not> neg)"
| "fsub (Infinity neg) (Finite m e) = Infinity neg"
| "fsub (Infinity neg) (Infinity neg') = (if neg = neg' then NaN else Infinity neg)"

text \<open>
  \<^verbatim>\<open>round(x, nd)\<close> on a float, for \<open>0 \<le> nd\<close>: the decimal with \<open>nd\<close> digits after the
  point nearest to the exact value of \<open>x\<close> (ties to the even digit), converted back to
  the nearest double. Infinities and NaN are returned as they are.
\<close>

fun py_round :: "pyfloat \<Rightarrow> nat \<Rightarrow> pyfloat" where
  "py_round (Finite m e) nd =
     (case frac_of m e of (a, b) \<Rightarrow> fl (rhe_div (a * 10 ^ nd) b) (10 ^ nd))"
| "py_round x nd = x"

text \<open>\<^verbatim>\<open>bool(x)\<close> on a float: every float but zero is true, NaN included.\<close>

definition float_truthy :: "pyfloat \<Rightarrow> bool" where
  "float_truthy x = (x \<noteq> Finite 0 0)"

text \<open>\<^verbatim>\<open>int(x)\<close> on a float truncates towards zero; it raises on infinities and NaN.\<close>

fun int_of_float :: "pyfloat \<Rightarrow> pyerror + int" where
  "int_of_float (Finite m e) =
     (case frac_of m e of (a, b) \<Rightarrow> Inr (sgn a * (\<bar>a\<bar> div b)))"
| "int_of_float (Infinity neg) = Inl OverflowError"
| "int_of_float NaN = Inl ValueError"

text \<open>\<^verbatim>\<open>float(k)\<close> on an integer raises when the nearest double is infinite.\<close>

definition float_of_int :: "int \<Rightarrow> pyerror + pyfloat" where
  "float_of_int k = (case fl k 1 of Infinity neg \<Rightarrow> Inl OverflowError | x \<Rightarrow> Inr x)"

text \<open>
  \<^verbatim>\<open>a / b\<close> on two integers is the correctly rounded quotient; it raises on a zero
  divisor and when the quotient is too large for a float.
\<close>

definition int_truediv :: "int \<Rightarrow> int \<Rightarrow> pyerror + pyfloat" where
  "int_truediv a b =
     (if b = 0 then Inl ZeroDivisionError
      else case fl (a * sgn b) \<bar>b\<bar> of Infinity neg \<Rightarrow> Inl OverflowError | x \<Rightarrow> Inr x)"

subsection \<open>Parsing a float from a string\<close>

text \<open>
  \<^verbatim>\<open>float(t)\<close> on a string. A string that is not all ASCII is first brought to ASCII:
  a character below U+007F stays, a blank (\<^verbatim>\<open>str.isspace()\<close>) becomes a space, a decimal
  digit becomes its ASCII digit (there is none from U+007F to U+00FF), and at any other
  character the text ends with a question mark. Then tab, line feed, vertical tab, form
  feed, carriage return and space are dropped at both ends, an underscore is accepted
  between two digits, and the rest is an optional sign followed by \<open>inf\<close>, \<open>infinity\<close>
  or \<open>nan\<close> in any case, or by a decimal number with an optional exponent. Anything else
  raises \<^verbatim>\<open>ValueError\<close>.
\<close>

definition is_ascii :: "char \<Rightarrow> bool" where
  "is_ascii c = ((of_char c :: nat) < 128)"

fun to_ascii :: "string \<Rightarrow> string" where
  "to_ascii [] = []"
| "to_ascii (c # cs) =
     (if (of_char c :: nat) < 127 then c # to_ascii cs
      else if py_isspace c then CHR 0x20 # to_ascii cs
      else ''?'')"

definition c_isspace :: "char \<Rightarrow> bool" where
  "c_isspace c = (c \<in> set [CHR 0x09, CHR 0x0A, CHR 0x0B, CHR 0x0C, CHR 0x0D, CHR 0x20])"

definition is_digit :: "char \<Rightarrow> bool" where
  "is_digit c = (c \<in> set ''0123456789'')"

definition digit_val :: "char \<Rightarrow> nat" where
  "digit_val c =
     (case map_of (zip ''0123456789'' [0, 1, 2, 3, 4, 5, 6, 7, 8, 9]) c of
        Some d \<Rightarrow> d | None \<Rightarrow> 0)"

definition digits_val :: "string \<Rightarrow> nat" where
  "digits_val ds = foldl (\<lambda>acc c. 10 * acc + digit_val c) 0 ds"

text \<open>An underscore must follow a digit and be followed by a digit.\<close>

fun underscores_ok :: "char \<Rightarrow> string \<Rightarrow> bool" where
  "underscores_ok prev [] = (prev \<noteq> CHR ''_'')"
| "underscores_ok prev (c # cs) =
     (if c = CHR ''_'' then is_digit prev \<and> underscores_ok c cs
      else if prev = CHR ''_'' then is_digit c \<and> underscores_ok c cs
      else underscores_ok c cs)"

definition split_sign :: "string \<Rightarrow> bool \<times> string" where
  "split_sign t =
     (case t of
        [] \<Rightarrow> (False, [])
      | c # r \<Rightarrow>
          if c = CHR ''-'' then (True, r) else if c = CHR ''+'' then (False, r) else (False, t))"

definition parse_exponent :: "string \<Rightarrow> int option" where
  "parse_exponent r =
     (case r of
        [] \<Rightarrow> Some 0
      | c # r' \<Rightarrow>
          if c = CHR ''e'' \<or> c = CHR ''E'' then
            (case split_sign r' of (neg, ds) \<Rightarrow>
               if ds \<noteq> [] \<and> list_all is_digit ds
               then Some (if neg then - int (digits_val ds) else int (digits_val ds))
               else None)
          else None)"

text \<open>The magnitude of a decimal number, as a fraction.\<close>

definition parse_decimal :: "string \<Rightarrow> (int \<times> int) option" where
  "parse_decimal r =
     (let ip = takeWhile is_digit r; r1 = dropWhile is_digit r;
          fp = (case r1 of [] \<Rightarrow> [] | c # r' \<Rightarrow>
                  if c = CHR ''.'' then takeWhile is_digit r' else []);
          r2 = (case r1 of [] \<Rightarrow> [] | c # r' \<Rightarrow>
                  if c = CHR ''.'' then dropWhile is_digit r' else r1)
      in if ip = [] \<and> fp = [] then None
         else case parse_exponent r2 of
                None \<Rightarrow> None
              | Some x \<Rightarrow>
                  let d = int (digits_val (ip @ fp)); x' = x - int (length fp)
                  in Some (if 0 \<le> x' then (d * 10 ^ nat x', 1) else (d, 10 ^ nat (- x'))))"

definition float_of_str :: "string \<Rightarrow> pyerror + pyfloat" where
  "float_of_str t =
     (let a = (if list_all is_ascii t then t else to_ascii t);
          u = rev (dropWhile c_isspace (rev (dropWhile c_isspace a))) in
      if \<not> underscores_ok (CHR 0x00) u then Inl ValueError
      else case split_sign (filter (\<lambda>c. c \<noteq> CHR ''_'') u) of (neg, r) \<Rightarrow>
        if py_lower r = ''inf'' \<or> py_lower r = ''infinity'' then Inr (Infinity neg)
        else if py_lower r = ''nan'' then Inr NaN
        else case parse_decimal r of
               None \<Rightarrow> Inl ValueError
             | Some (a, b) \<Rightarrow> Inr (fl (if neg then - a else a) b))"

section \<open>The cell coercion helpers\<close>

text \<open>
  The value of a worksheet cell, as the workbook reader delivers it with cached formula
  results: \<^verbatim>\<open>None\<close> for an empty cell, a boolean, an integer, a float, a string, or a
  date or time object. A float cell carries, beside its value, the text \<^verbatim>\<open>str()\<close>
  prints for it, and a date or time cell is given by that text alone (\<^verbatim>\<open>float()\<close>
  raises \<^verbatim>\<open>TypeError\<close> on it).
\<close>

datatype cell =
  CNone | CBool bool | CInt int | CFloat pyfloat string | CStr string | CDateTime string

text \<open>\<^verbatim>\<open>str(v)\<close> and \<^verbatim>\<open>float(v)\<close> on a cell value.\<close>

fun py_str :: "cell \<Rightarrow> string" where
  "py_str CNone = ''None''"
| "py_str (CBool b) = (if b then ''True'' else ''False'')"
| "py_str (CInt k) = str_int k"
| "py_str (CFloat x t) = t"
| "py_str (CStr t) = t"
| "py_str (CDateTime t) = t"

fun py_float :: "cell \<Rightarrow> pyerror + pyfloat" where
  "py_float CNone = Inl TypeError"
| "py_float (CBool b) = Inr (if b then Finite 1 0 else Finite 0 0)"
| "py_float (CInt k) = float_of_int k"
| "py_float (CFloat x t) = Inr x"
| "py_float (CStr t) = float_of_str t"
| "py_float (CDateTime t) = Inl TypeError"

text \<open>
  The helpers \<^verbatim>\<open>n\<close>, \<^verbatim>\<open>s\<close> and \<^verbatim>\<open>i\<close> of the script. The bare \<^verbatim>\<open>except\<close> of \<^verbatim>\<open>n\<close> and
  \<^verbatim>\<open>i\<close> turns every exception of the conversion into \<^verbatim>\<open>None\<close>.
\<close>

definition n_cell :: "cell \<Rightarrow> pyfloat option" where
  "n_cell v =
     (if v = CNone then None
      else case py_float v of Inl err \<Rightarrow> None | Inr x \<Rightarrow> Some x)"

definition s_cell :: "cell \<Rightarrow> string option" where
  "s_cell v = (if v = CNone then None else Some (py_strip (py_str v)))"

definition i_cell :: "cell \<Rightarrow> int option" where
  "i_cell v =
     (if v = CNone then None
      else case py_float v of
             Inl err \<Rightarrow> None
           | Inr x \<Rightarrow> (case int_of_float x of Inl err \<Rightarrow> None | Inr k \<Rightarrow> Some k))"

subsection \<open>Values of parsed responses and of posted records\<close>

text \<open>
  The values the script receives from the backend (parsed JSON) and the values it puts
  into the dictionaries it posts. A dictionary is an association list; a key is looked
  up with \<open>map_of\<close>.
\<close>

datatype pyval =
  PNone | PBool bool | PInt int | PFloat pyfloat | PStr string
  | PList "pyval list" | PDict "(string \<times> pyval) list"

text \<open>\<^verbatim>\<open>bool(x)\<close>, as \<^verbatim>\<open>if x\<close>, \<^verbatim>\<open>not x\<close> and \<^verbatim>\<open>x and y\<close> test it.\<close>

fun truthy :: "pyval \<Rightarrow> bool" where
  "truthy PNone = False"
| "truthy (PBool b) = b"
| "truthy (PInt k) = (k \<noteq> 0)"
| "truthy (PFloat x) = float_truthy x"
| "truthy (PStr t) = (t \<noteq> [])"
| "truthy (PList xs) = (xs \<noteq> [])"
| "truthy (PDict d) = (d \<noteq> [])"

text \<open>\<^verbatim>\<open>len(x)\<close>.\<close>

fun py_len :: "pyval \<Rightarrow> pyerror + nat" where
  "py_len (PStr t) = Inr (length t)"
| "py_len (PList xs) = Inr (length xs)"
| "py_len (PDict d) = Inr (length d)"
| "py_len x = Inl TypeError"

text \<open>\<^verbatim>\<open>x[0]\<close>. The keys of a parsed JSON object are strings, so 0 is never a key.\<close>

fun py_first :: "pyval \<Rightarrow> pyerror + pyval" where
  "py_first (PList []) = Inl IndexError"
| "py_first (PList (x # xs)) = Inr x"
| "py_first (PStr []) = Inl IndexError"
| "py_first (PStr (c # cs)) = Inr (PStr [c])"
| "py_first (PDict d) = Inl KeyError"
| "py_first x = Inl TypeError"

text \<open>\<^verbatim>\<open>x[k]\<close> for a string key \<open>k\<close>.\<close>

fun py_getitem :: "pyval \<Rightarrow> string \<Rightarrow> pyerror + pyval" where
  "py_getitem (PDict d) k = (case map_of d k of None \<Rightarrow> Inl KeyError | Some v \<Rightarrow> Inr v)"
| "py_getitem x k = Inl TypeError"

text \<open>\<^verbatim>\<open>k in x\<close> for a string \<open>k\<close>.\<close>

fun py_contains :: "string \<Rightarrow> pyval \<Rightarrow> pyerror + bool" where
  "py_contains k (PDict d) = Inr (k \<in> fst ` set d)"
| "py_contains k (PStr t) = Inr (str_contains k t)"
| "py_contains k (PList xs) = Inr (PStr k \<in> set xs)"
| "py_contains k x = Inl TypeError"

text \<open>\<^verbatim>\<open>x and len(x) > 0\<close>: the length is taken of a true value only.\<close>

definition nonempty :: "pyval \<Rightarrow> pyerror + bool" where
  "nonempty x =
     (if \<not> truthy x then Inr False
      else case py_len x of Inl err \<Rightarrow> Inl err | Inr k \<Rightarrow> Inr (0 < k))"

text \<open>\<^verbatim>\<open>x[0]["id"]\<close> and \<^verbatim>\<open>x[0]['name']\<close>.\<close>

definition first_field :: "pyval \<Rightarrow> string \<Rightarrow> pyerror + pyval" where
  "first_field x k = (case py_first x of Inl err \<Rightarrow> Inl err | Inr y \<Rightarrow> py_getitem y k)"

text \<open>\<^verbatim>\<open>x[0]["id"] if x and len(x) > 0 else None\<close>.\<close>

definition first_id_or_none :: "pyval \<Rightarrow> pyerror + pyval" where
  "first_id_or_none x =
     (case nonempty x of
        Inl err \<Rightarrow> Inl err
      | Inr b \<Rightarrow> if b then first_field x ''id'' else Inr PNone)"

fun of_str :: "string option \<Rightarrow> pyval" where
  "of_str None = PNone"
| "of_str (Some t) = PStr t"

fun of_int_opt :: "int option \<Rightarrow> pyval" where
  "of_int_opt None = PNone"
| "of_int_opt (Some k) = PInt k"

fun of_float :: "pyfloat option \<Rightarrow> pyval" where
  "of_float None = PNone"
| "of_float (Some x) = PFloat x"

section \<open>The remote write client\<close>

text \<open>
  A request as \<^verbatim>\<open>requests\<close> sends it, and what the script reads of the response:
  \<^verbatim>\<open>r.status_code\<close>, \<^verbatim>\<open>r.text\<close>, and \<^verbatim>\<open>r.json()\<close>, which is \<open>None\<close> when the body is
  not JSON and the call raises.
\<close>

record request =
  req_method :: string
  req_url :: string
  req_json :: pyval
  req_params :: "(string \<times> string) list"

record response =
  status_code :: int
  resp_text :: string
  resp_json :: "pyval option"

text \<open>
  The backend is a parameter: a function that answers a request in a state of the world
  and gives the next state. A run of the script threads the world, the list of the
  requests sent so far and the lines \<^verbatim>\<open>api\<close> printed. Progress lines are not kept;
  a request that gets no response (a network failure) is outside the model.
\<close>

type_synonym 'w net = "request \<Rightarrow> 'w \<Rightarrow> response \<times> 'w"

record 'w run =
  world :: 'w
  sent :: "request list"
  out :: "string list"

definition SUPABASE_URL :: string where
  "SUPABASE_URL = ''https://ayxsaylqhjfgwlchkeek.supabase.co''"

definition table_url :: "string \<Rightarrow> string" where
  "table_url table = SUPABASE_URL @ ''/rest/v1/'' @ table"

definition api_request ::
  "string \<Rightarrow> string \<Rightarrow> pyval \<Rightarrow> (string \<times> string) list \<Rightarrow> request" where
  "api_request method table data params =
     \<lparr>req_method = method, req_url = table_url table, req_json = data, req_params = params\<rparr>"

definition api ::
  "'w net \<Rightarrow> string \<Rightarrow> string \<Rightarrow> pyval \<Rightarrow> (string \<times> string) list \<Rightarrow> 'w run
     \<Rightarrow> pyval \<times> 'w run" where
  "api net method table data params st =
     (case net (api_request method table data params) (world st) of (r, w) \<Rightarrow>
        let st' = st\<lparr>world := w, sent := sent st @ [api_request method table data params]\<rparr>
        in if 400 \<le> status_code r
           then (PNone, st'\<lparr>out := out st' @
                   [''  ERROR '' @ str_int (status_code r) @ '': '' @ take 200 (resp_text r)]\<rparr>)
           else (case resp_json r of
                   Some j \<Rightarrow> (j, st')
                 | None \<Rightarrow> (PStr (resp_text r), st')))"

section \<open>Resolving the event\<close>

definition events_query :: "(string \<times> string) list" where
  "events_query = [(''select'', ''id,name''), (''limit'', ''1'')]"

definition profiles_query :: "(string \<times> string) list" where
  "profiles_query = [(''select'', ''id''), (''limit'', ''1'')]"

definition event_data :: "pyval \<Rightarrow> (string \<times> pyval) list" where
  "event_data user_id =
     [(''name'', PStr ''Lincoln CDJR Feb/March 26''),
      (''slug'', PStr ''lincoln-cdjr-feb-march-26''),
      (''status'', PStr ''active''),
      (''location'', PStr ''Lincoln, IL 62656''),
      (''start_date'', PStr ''2026-02-24''),
      (''end_date'', PStr ''2026-03-03''),
      (''budget'', PInt 50000)]
     @ (if truthy user_id then [(''created_by'', user_id)] else [])"

definition sql_request :: request where
  "sql_request =
     \<lparr>req_method = ''post'',
      req_url = ''https://api.supabase.com/v1/projects/ayxsaylqhjfgwlchkeek/database/query'',
      req_json = PDict [(''query'', PStr (''ALTER TABLE events ALTER COLUMN created_by DROP NOT NULL; ''
        @ ''INSERT INTO events (name, slug, status, location, start_date, end_date, budget) ''
        @ ''VALUES ('' @ [CHR 0x27] @ ''Lincoln CDJR Feb/March 26'' @ [CHR 0x27] @ '', ''
        @ [CHR 0x27] @ ''lincoln-cdjr-feb-march-26'' @ [CHR 0x27] @ '', ''
        @ [CHR 0x27] @ ''active'' @ [CHR 0x27] @ '', ''
        @ [CHR 0x27] @ ''Lincoln, IL 62656'' @ [CHR 0x27] @ '', ''
        @ [CHR 0x27] @ ''2026-02-24'' @ [CHR 0x27] @ '', ''
        @ [CHR 0x27] @ ''2026-03-03'' @ [CHR 0x27] @ '', 50000) RETURNING id;''))],
      req_params = []\<rparr>"

text \<open>
  The loop over the rows of the SQL answer. An exception inside the \<^verbatim>\<open>try\<close> block ends
  the loop and keeps the identifier assigned so far.
\<close>

fun sql_scan :: "pyval list \<Rightarrow> pyval \<Rightarrow> pyval" where
  "sql_scan [] event_id = event_id"
| "sql_scan (PList (x # xs) # ds) event_id =
     (case py_contains ''id'' x of
        Inl err \<Rightarrow> event_id
      | Inr b \<Rightarrow>
          if b then (case py_getitem x ''id'' of
                       Inl err \<Rightarrow> event_id
                     | Inr v \<Rightarrow> sql_scan ds v)
          else sql_scan ds event_id)"
| "sql_scan (d # ds) event_id = sql_scan ds event_id"

definition sql_event_id :: "response \<Rightarrow> pyval \<Rightarrow> pyval" where
  "sql_event_id r event_id =
     (case resp_json r of
        Some (PList ds) \<Rightarrow> sql_scan ds event_id
      | _ \<Rightarrow> event_id)"

text \<open>The privileged SQL path and the last query, taken when no identifier is there yet.\<close>

definition sql_fallback :: "'w net \<Rightarrow> pyval \<Rightarrow> 'w run \<Rightarrow> (pyerror + pyval) \<times> 'w run" where
  "sql_fallback net event_id st =
     (case net sql_request (world st) of (r, w) \<Rightarrow>
        let st' = st\<lparr>world := w, sent := sent st @ [sql_request]\<rparr>;
            event_id' = sql_event_id r event_id
        in if truthy event_id' then (Inr event_id', st')
           else (case api net ''get'' ''events'' PNone events_query st' of (events, st'') \<Rightarrow>
                   case nonempty events of
                     Inl err \<Rightarrow> (Inl err, st'')
                   | Inr b \<Rightarrow>
                       if b then (case first_field events ''id'' of
                                    Inl err \<Rightarrow> (Inl err, st'')
                                  | Inr v \<Rightarrow> (Inr v, st''))
                       else (Inr event_id', st'')))"

text \<open>The branch taken when the first query finds no event.\<close>

definition create_event :: "'w net \<Rightarrow> 'w run \<Rightarrow> (pyerror + pyval) \<times> 'w run" where
  "create_event net st =
     (case api net ''get'' ''profiles'' PNone profiles_query st of (users, st1) \<Rightarrow>
        case first_id_or_none users of
          Inl err \<Rightarrow> (Inl err, st1)
        | Inr user_id \<Rightarrow>
            (case api net ''post'' ''events'' (PDict (event_data user_id)) [] st1 of
               (result, st2) \<Rightarrow>
                 case first_id_or_none result of
                   Inl err \<Rightarrow> (Inl err, st2)
                 | Inr event_id \<Rightarrow>
                     if truthy event_id then (Inr event_id, st2)
                     else sql_fallback net event_id st2))"

definition resolve_event :: "'w net \<Rightarrow> 'w run \<Rightarrow> (pyerror + pyval) \<times> 'w run" where
  "resolve_event net st =
     (case api net ''get'' ''events'' PNone events_query st of (events, st1) \<Rightarrow>
        case nonempty events of
          Inl err \<Rightarrow> (Inl err, st1)
        | Inr b \<Rightarrow>
            if b then (case first_field events ''id'' of
                         Inl err \<Rightarrow> (Inl err, st1)
                       | Inr event_id \<Rightarrow>
                           (case first_field events ''name'' of
                              Inl err \<Rightarrow> (Inl err, st1)
                            | Inr name \<Rightarrow> (Inr event_id, st1)))
            else create_event net st1)"

section \<open>The sheet extractors\<close>

text \<open>
  A worksheet gives the value of the cell at a column (its letters) and a row, and its
  \<^verbatim>\<open>max_row\<close>. A workbook maps the name of a sheet to the sheet; \<^verbatim>\<open>wb[name]\<close> raises
  \<^verbatim>\<open>KeyError\<close> for a name it does not have.
\<close>

record sheet =
  cell_value :: "string \<Rightarrow> nat \<Rightarrow> cell"
  max_row :: nat

type_synonym workbook = "string \<Rightarrow> sheet option"

text \<open>\<^verbatim>\<open>not x\<close> on the result of \<^verbatim>\<open>s\<close>, and \<^verbatim>\<open>x\<close> as a condition on the results of \<^verbatim>\<open>n\<close> and \<^verbatim>\<open>i\<close>.\<close>

definition str_falsy :: "string option \<Rightarrow> bool" where
  "str_falsy x = (case x of None \<Rightarrow> True | Some t \<Rightarrow> t = [])"

definition num_truthy :: "pyfloat option \<Rightarrow> bool" where
  "num_truthy x = (case x of None \<Rightarrow> False | Some y \<Rightarrow> float_truthy y)"

definition int_truthy :: "int option \<Rightarrow> bool" where
  "int_truthy x = (case x of None \<Rightarrow> False | Some k \<Rightarrow> k \<noteq> 0)"

subsection \<open>Roster and lenders\<close>

definition roles_map :: "(string \<times> string) list" where
  "roles_map = [(''BRYAN ROGERS'', ''team_leader''), (''BRYANTROGERS'', ''team_leader'')]"

text \<open>One pass of the roster loop: \<open>None\<close> when the row is skipped.\<close>

definition roster_row :: "pyval \<Rightarrow> sheet \<Rightarrow> nat \<Rightarrow> pyval option" where
  "roster_row event_id ws row =
     (let name = s_cell (cell_value ws ''C'' row);
          phone = s_cell (cell_value ws ''D'' row)
      in case name of
           None \<Rightarrow> None
         | Some nm \<Rightarrow>
             if nm = [] \<or> py_lower nm \<in> set [''none'', ''spare''] then None
             else Some (PDict
               [(''event_id'', event_id),
                (''name'', PStr nm),
                (''phone'', of_str phone),
                (''role'', PStr (case map_of roles_map nm of Some r \<Rightarrow> r | None \<Rightarrow> ''sales'')),
                (''confirmed'', PBool True),
                (''commission_pct'', PFloat (fl 25 100))]))"

definition roster_data :: "pyval \<Rightarrow> sheet \<Rightarrow> pyval list" where
  "roster_data event_id ws = List.map_filter (roster_row event_id ws) [2..<18]"

definition lender_row :: "pyval \<Rightarrow> sheet \<Rightarrow> nat \<Rightarrow> pyval option" where
  "lender_row event_id ws row =
     (let name = s_cell (cell_value ws ''I'' row);
          pct = n_cell (cell_value ws ''K'' row)
      in if str_falsy name then None
         else Some (PDict
           [(''event_id'', event_id),
            (''name'', of_str name),
            (''buy_rate_pct'', of_float pct)]))"

definition lenders_data :: "pyval \<Rightarrow> sheet \<Rightarrow> pyval list" where
  "lenders_data event_id ws = List.map_filter (lender_row event_id ws) [2..<20]"

subsection \<open>Inventory\<close>

text \<open>The pricing tiers: the fields added when trade value and unit cost are both true.\<close>

definition tier_fields :: "pyfloat \<Rightarrow> pyfloat \<Rightarrow> pyfloat \<times> string \<Rightarrow> (string \<times> pyval) list" where
  "tier_fields jd_trade unit_cost mp =
     (case mp of (mult, prefix) \<Rightarrow>
        let price = py_round (fmul jd_trade mult) 2;
            profit = py_round (fsub price unit_cost) 2
        in [(''price_'' @ prefix, PFloat price), (''profit_'' @ prefix, PFloat profit)])"

definition multipliers :: "(pyfloat \<times> string) list" where
  "multipliers =
     [(fl 115 100, ''115''), (fl 120 100, ''120''), (fl 125 100, ''125''), (fl 130 100, ''130'')]"

definition pricing_fields :: "pyfloat option \<Rightarrow> pyfloat option \<Rightarrow> (string \<times> pyval) list" where
  "pricing_fields jd_trade unit_cost =
     (case (jd_trade, unit_cost) of
        (Some t, Some c) \<Rightarrow>
          if float_truthy t \<and> float_truthy c
          then (''cost_diff'', PFloat (py_round (fsub t c) 2))
               # concat (map (tier_fields t c) multipliers)
          else []
      | _ \<Rightarrow> [])"

definition retail_fields :: "pyfloat option \<Rightarrow> pyfloat option \<Rightarrow> (string \<times> pyval) list" where
  "retail_fields jd_retail unit_cost =
     (case (jd_retail, unit_cost) of
        (Some r, Some c) \<Rightarrow>
          if float_truthy r \<and> float_truthy c
          then [(''retail_spread'', PFloat (py_round (fsub r c) 2))]
          else []
      | _ \<Rightarrow> [])"

text \<open>The names of the fields of the pricing tiers.\<close>

definition pricing_keys :: "string list" where
  "pricing_keys =
     [''cost_diff'', ''price_115'', ''profit_115'', ''price_120'', ''profit_120'',
      ''price_125'', ''profit_125'', ''price_130'', ''profit_130'']"

definition sold_status :: "string option \<Rightarrow> string" where
  "sold_status sold_raw =
     (case sold_raw of
        None \<Rightarrow> ''available''
      | Some t \<Rightarrow>
          if t \<noteq> [] \<and> str_contains ''sold'' (py_lower t) then ''sold'' else ''available'')"

definition inventory_row :: "pyval \<Rightarrow> sheet \<Rightarrow> nat \<Rightarrow> pyval option" where
  "inventory_row event_id ws_inv row =
     (let hat = i_cell (cell_value ws_inv ''A'' row);
          name_val = s_cell (cell_value ws_inv ''G'' row)
      in if str_falsy name_val \<and> \<not> int_truthy hat then None
         else
           let unit_cost = n_cell (cell_value ws_inv ''Q'' row);
               jd_trade = n_cell (cell_value ws_inv ''O'' row);
               jd_retail = n_cell (cell_value ws_inv ''P'' row);
               sold_raw = s_cell (cell_value ws_inv ''C'' row)
           in Some (PDict
             ([(''event_id'', event_id),
               (''hat_number'', of_int_opt hat),
               (''status_label'', of_str (s_cell (cell_value ws_inv ''B'' row))),
               (''sold_status'', PStr (sold_status sold_raw)),
               (''stock_number'', of_str (s_cell (cell_value ws_inv ''D'' row))),
               (''year'', of_int_opt (i_cell (cell_value ws_inv ''E'' row))),
               (''make'', of_str (s_cell (cell_value ws_inv ''F'' row))),
               (''model'', of_str name_val),
               (''class'', of_str (s_cell (cell_value ws_inv ''H'' row))),
               (''color'', of_str (s_cell (cell_value ws_inv ''I'' row))),
               (''odometer'', of_int_opt (i_cell (cell_value ws_inv ''J'' row))),
               (''vin'', of_str (s_cell (cell_value ws_inv ''K'' row))),
               (''series_trim'', of_str (s_cell (cell_value ws_inv ''L'' row))),
               (''age_days'', of_int_opt (i_cell (cell_value ws_inv ''M'' row))),
               (''drivetrain'', of_str (s_cell (cell_value ws_inv ''N'' row))),
               (''jd_trade_clean'', of_float jd_trade),
               (''jd_retail_clean'', of_float jd_retail),
               (''unit_cost'', of_float unit_cost)]
              @ pricing_fields jd_trade unit_cost
              @ retail_fields jd_retail unit_cost)))"

definition inv_data :: "pyval \<Rightarrow> sheet \<Rightarrow> pyval list" where
  "inv_data event_id ws_inv =
     List.map_filter (inventory_row event_id ws_inv) [2..<max_row ws_inv + 1]"

subsection \<open>Deals\<close>

definition deal_row :: "pyval \<Rightarrow> sheet \<Rightarrow> nat \<Rightarrow> pyval option" where
  "deal_row event_id ws_deals row =
     (let customer = s_cell (cell_value ws_deals ''I'' row);
          stock = s_cell (cell_value ws_deals ''H'' row)
      in if str_falsy customer \<and> str_falsy stock then None
         else
           let front = n_cell (cell_value ws_deals ''Y'' row);
               fi_total = n_cell (cell_value ws_deals ''AF'' row);
               total = n_cell (cell_value ws_deals ''AG'' row)
           in Some (PDict
             [(''event_id'', event_id),
              (''deal_number'', of_int_opt (i_cell (cell_value ws_deals ''E'' row))),
              (''sale_day'', PInt 1),
              (''store'', of_str (s_cell (cell_value ws_deals ''G'' row))),
              (''stock_number'', of_str stock),
              (''customer_name'', of_str customer),
              (''zip_code'', of_str (s_cell (cell_value ws_deals ''J'' row))),
              (''new_used'', of_str (s_cell (cell_value ws_deals ''K'' row))),
              (''purchase_year'', of_int_opt (i_cell (cell_value ws_deals ''L'' row))),
              (''purchase_make'', of_str (s_cell (cell_value ws_deals ''M'' row))),
              (''purchase_model'', of_str (s_cell (cell_value ws_deals ''N'' row))),
              (''vehicle_cost'', of_float (n_cell (cell_value ws_deals ''O'' row))),
              (''vehicle_age'', of_int_opt (i_cell (cell_value ws_deals ''P'' row))),
              (''trade_year'', of_int_opt (i_cell (cell_value ws_deals ''Q'' row))),
              (''trade_make'', of_str (s_cell (cell_value ws_deals ''R'' row))),
              (''trade_model'', of_str (s_cell (cell_value ws_deals ''S'' row))),
              (''salesperson'', of_str (s_cell (cell_value ws_deals ''W'' row))),
              (''second_salesperson'', of_str (s_cell (cell_value ws_deals ''X'' row))),
              (''front_gross'', of_float front),
              (''lender'', of_str (s_cell (cell_value ws_deals ''Z'' row))),
              (''rate'', of_float (n_cell (cell_value ws_deals ''AA'' row))),
              (''reserve'', of_float (n_cell (cell_value ws_deals ''AB'' row))),
              (''warranty'', of_float (n_cell (cell_value ws_deals ''AC'' row))),
              (''aft1'', of_float (n_cell (cell_value ws_deals ''AD'' row))),
              (''gap'', of_float (n_cell (cell_value ws_deals ''AE'' row))),
              (''fi_total'', of_float fi_total),
              (''total_gross'', of_float total),
              (''jde_pay'', of_float (n_cell (cell_value ws_deals ''AK'' row))),
              (''source'', PStr ''Mail'')]))"

definition deals_data :: "pyval \<Rightarrow> sheet \<Rightarrow> pyval list" where
  "deals_data event_id ws_deals =
     List.map_filter (deal_row event_id ws_deals) [9..<max_row ws_deals + 1]"

subsection \<open>Mail tracking\<close>

text \<open>\<^verbatim>\<open>x or 0\<close> on the result of \<^verbatim>\<open>i\<close>.\<close>

definition or_zero :: "int option \<Rightarrow> pyval" where
  "or_zero x = (case x of None \<Rightarrow> PInt 0 | Some k \<Rightarrow> if k \<noteq> 0 then PInt k else PInt 0)"

text \<open>\<^verbatim>\<open>round(total_resp / pieces, 4) if pieces and total_resp else 0\<close>.\<close>

definition response_rate :: "int option \<Rightarrow> int option \<Rightarrow> pyerror + pyval" where
  "response_rate pieces total_resp =
     (case (pieces, total_resp) of
        (Some p, Some t) \<Rightarrow>
          if p \<noteq> 0 \<and> t \<noteq> 0
          then (case int_truediv t p of
                  Inl err \<Rightarrow> Inl err
                | Inr q \<Rightarrow> Inr (PFloat (py_round q 4)))
          else Inr (PInt 0)
      | _ \<Rightarrow> Inr (PInt 0))"

text \<open>One pass of the mail loop: an exception, or \<open>None\<close> when the row is skipped.\<close>

definition mail_row :: "pyval \<Rightarrow> sheet \<Rightarrow> nat \<Rightarrow> pyerror + pyval option" where
  "mail_row event_id ws_mail row =
     (let zip_code = s_cell (cell_value ws_mail ''E'' row);
          town = s_cell (cell_value ws_mail ''D'' row)
      in if str_falsy zip_code \<or> str_falsy town then Inr None
         else
           let pieces = i_cell (cell_value ws_mail ''B'' row);
               total_resp = i_cell (cell_value ws_mail ''F'' row)
           in case response_rate pieces total_resp of
                Inl err \<Rightarrow> Inl err
              | Inr rate \<Rightarrow> Inr (Some (PDict
                  [(''event_id'', event_id),
                   (''campaign_name'', PStr ''WIN BIG''),
                   (''zip_code'', of_str zip_code),
                   (''town'', of_str town),
                   (''pieces_sent'', of_int_opt pieces),
                   (''day1_responses'', or_zero (i_cell (cell_value ws_mail ''G'' row))),
                   (''day2_responses'', or_zero (i_cell (cell_value ws_mail ''H'' row))),
                   (''day3_responses'', or_zero (i_cell (cell_value ws_mail ''I'' row))),
                   (''day4_responses'', or_zero (i_cell (cell_value ws_mail ''J'' row))),
                   (''day5_responses'', or_zero (i_cell (cell_value ws_mail ''K'' row))),
                   (''day6_responses'', or_zero (i_cell (cell_value ws_mail ''L'' row))),
                   (''day7_responses'', or_zero (i_cell (cell_value ws_mail ''M'' row))),
                   (''total_responses'', or_zero total_resp),
                   (''response_rate'', rate)])))"

text \<open>The mail loop over a list of rows, with the entries collected so far.\<close>

fun mail_loop :: "pyval \<Rightarrow> sheet \<Rightarrow> nat list \<Rightarrow> pyval list \<Rightarrow> pyerror + pyval list" where
  "mail_loop event_id ws_mail [] acc = Inr acc"
| "mail_loop event_id ws_mail (row # rows) acc =
     (case mail_row event_id ws_mail row of
        Inl err \<Rightarrow> Inl err
      | Inr None \<Rightarrow> mail_loop event_id ws_mail rows acc
      | Inr (Some entry) \<Rightarrow> mail_loop event_id ws_mail rows (acc @ [entry]))"

definition mail_data :: "pyval \<Rightarrow> sheet \<Rightarrow> pyerror + pyval list" where
  "mail_data event_id ws_mail = mail_loop event_id ws_mail [2..<max_row ws_mail + 1] []"

subsection \<open>Event configuration\<close>

definition config :: "pyval \<Rightarrow> pyval" where
  "config event_id = PDict
     [(''event_id'', event_id),
      (''dealer_name'', PStr ''Lincoln CDJR''),
      (''franchise'', PStr ''Chrysler Dodge Jeep Ram''),
      (''city'', PStr ''Lincoln''),
      (''state'', PStr ''IL''),
      (''zip'', PStr ''62656''),
      (''sale_days'', PInt 6),
      (''doc_fee'', PFloat (fl 37765 100)),
      (''tax_rate'', PFloat (fl 625 10000)),
      (''pack'', PInt 0),
      (''mail_title'', PStr ''WIN BIG''),
      (''mail_pieces'', PInt 70000),
      (''jde_commission_pct'', PFloat (fl 35 100)),
      (''rep_commission_pct'', PFloat (fl 25 100)),
      (''target_units'', PInt 50),
      (''target_avg_gross'', PFloat (fl 814435 100))]"

section \<open>The orchestration\<close>

text \<open>\<^verbatim>\<open>range(start, stop, step)\<close> for a positive step, and the slice \<^verbatim>\<open>xs[a:b]\<close>.\<close>

definition py_range :: "nat \<Rightarrow> nat \<Rightarrow> nat \<Rightarrow> nat list" where
  "py_range start stop step =
     map (\<lambda>k. start + k * step) [0..<(stop - start + step - 1) div step]"

definition py_slice :: "'a list \<Rightarrow> nat \<Rightarrow> nat \<Rightarrow> 'a list" where
  "py_slice xs a b = take (b - a) (drop a xs)"

text \<open>A statement \<^verbatim>\<open>api("post", table, data)\<close> whose result is not used.\<close>

definition post :: "'w net \<Rightarrow> string \<Rightarrow> pyval \<Rightarrow> 'w run \<Rightarrow> 'w run" where
  "post net table data st = snd (api net ''post'' table data [] st)"

text \<open>The loop that posts a list in batches of 20.\<close>

definition post_batches :: "'w net \<Rightarrow> string \<Rightarrow> pyval list \<Rightarrow> 'w run \<Rightarrow> 'w run" where
  "post_batches net table data st =
     fold (\<lambda>idx. post net table (PList (py_slice data idx (idx + 20))))
       (py_range 0 (length data) 20) st"

definition seed_roster :: "'w net \<Rightarrow> pyval \<Rightarrow> sheet \<Rightarrow> 'w run \<Rightarrow> 'w run" where
  "seed_roster net event_id ws st = post net ''roster'' (PList (roster_data event_id ws)) st"

definition seed_lenders :: "'w net \<Rightarrow> pyval \<Rightarrow> sheet \<Rightarrow> 'w run \<Rightarrow> 'w run" where
  "seed_lenders net event_id ws st =
     (if lenders_data event_id ws \<noteq> []
      then post net ''lenders'' (PList (lenders_data event_id ws)) st else st)"

definition seed_inventory :: "'w net \<Rightarrow> pyval \<Rightarrow> sheet \<Rightarrow> 'w run \<Rightarrow> 'w run" where
  "seed_inventory net event_id ws_inv st =
     (if inv_data event_id ws_inv \<noteq> []
      then post_batches net ''vehicle_inventory'' (inv_data event_id ws_inv) st else st)"

definition seed_deals :: "'w net \<Rightarrow> pyval \<Rightarrow> sheet \<Rightarrow> 'w run \<Rightarrow> 'w run" where
  "seed_deals net event_id ws_deals st =
     (if deals_data event_id ws_deals \<noteq> []
      then post net ''deals_v2'' (PList (deals_data event_id ws_deals)) st else st)"

definition seed_mail :: "'w net \<Rightarrow> pyval \<Rightarrow> sheet \<Rightarrow> 'w run \<Rightarrow> (pyerror + unit) \<times> 'w run" where
  "seed_mail net event_id ws_mail st =
     (case mail_data event_id ws_mail of
        Inl err \<Rightarrow> (Inl err, st)
      | Inr entries \<Rightarrow>
          (Inr (), if entries \<noteq> [] then post_batches net ''mail_tracking'' entries st else st))"

definition seed_config :: "'w net \<Rightarrow> pyval \<Rightarrow> 'w run \<Rightarrow> 'w run" where
  "seed_config net event_id st = post net ''event_config'' (config event_id) st"

text \<open>Everything after the check of the event identifier, for a true identifier.\<close>

definition seed_children ::
  "'w net \<Rightarrow> workbook \<Rightarrow> pyval \<Rightarrow> 'w run \<Rightarrow> (pyerror + unit) \<times> 'w run" where
  "seed_children net wb event_id st =
     (case wb ''Roster & Tables'' of
        None \<Rightarrow> (Inl KeyError, st)
      | Some ws \<Rightarrow>
          let st2 = seed_lenders net event_id ws (seed_roster net event_id ws st)
          in case wb ''INVENTORY'' of
               None \<Rightarrow> (Inl KeyError, st2)
             | Some ws_inv \<Rightarrow>
                 let st3 = seed_inventory net event_id ws_inv st2
                 in case wb ''DEAL LOG'' of
                      None \<Rightarrow> (Inl KeyError, st3)
                    | Some ws_deals \<Rightarrow>
                        let st4 = seed_deals net event_id ws_deals st3
                        in case wb ''MAIL TRACKING'' of
                             None \<Rightarrow> (Inl KeyError, st4)
                           | Some ws_mail \<Rightarrow>
                               (case seed_mail net event_id ws_mail st4 of
                                  (Inl err, st5) \<Rightarrow> (Inl err, st5)
                                | (Inr u, st5) \<Rightarrow> (Inr (), seed_config net event_id st5)))"

text \<open>
  The script from the first query on, for a loaded workbook: the event is resolved, a
  false identifier ends the run with \<^verbatim>\<open>sys.exit(1)\<close>, and the children follow.
\<close>

definition seed :: "'w net \<Rightarrow> workbook \<Rightarrow> 'w run \<Rightarrow> (pyerror + unit) \<times> 'w run" where
  "seed net wb st =
     (case resolve_event net st of
        (Inl err, st1) \<Rightarrow> (Inl err, st1)
      | (Inr event_id, st1) \<Rightarrow>
          if \<not> truthy event_id then (Inl (SystemExit 1), st1)
          else seed_children net wb event_id st1)"

definition init_run :: "'w \<Rightarrow> 'w run" where
  "init_run w = \<lparr>world = w, sent = [], out = []\<rparr>"

text \<open>The tables of the child records, and the requests that write to them.\<close>

definition child_tables :: "string list" where
  "child_tables =
     [''roster'', ''lenders'', ''vehicle_inventory'', ''deals_v2'', ''mail_tracking'',
      ''event_config'']"

definition is_child_write :: "request \<Rightarrow> bool" where
  "is_child_write req =
     (req_method req = ''post'' \<and> req_url req \<in> set (map table_url child_tables))"

text \<open>
  The event identifier a posted record carries, and the requests whose records all
  carry a given identifier. \<open>extends\<close> relates two states of a run when the later one has
  sent, after the earlier one, only writes to child tables that carry the identifier.
\<close>

definition record_event_id :: "pyval \<Rightarrow> pyval option" where
  "record_event_id r = (case r of PDict d \<Rightarrow> map_of d ''event_id'' | _ \<Rightarrow> None)"

definition carries :: "pyval \<Rightarrow> request \<Rightarrow> bool" where
  "carries event_id req =
     (case req_json req of
        PList rs \<Rightarrow> list_all (\<lambda>r. record_event_id r = Some event_id) rs
      | PDict d \<Rightarrow> map_of d ''event_id'' = Some event_id
      | _ \<Rightarrow> False)"

definition events_get :: request where
  "events_get = api_request ''get'' ''events'' PNone events_query"

definition extends :: "pyval \<Rightarrow> 'w run \<Rightarrow> 'w run \<Rightarrow> bool" where
  "extends event_id st st' =
     (\<exists>rs. sent st' = sent st @ rs
        \<and> list_all (\<lambda>req. is_child_write req \<and> carries event_id req) rs)"

section \<open>Sample backends and sheets\<close>

text \<open>Concrete inputs on which the theorems below are instantiated.\<close>

definition net404 :: "nat net" where
  "net404 req w = (\<lparr>status_code = 404, resp_text = ''not found'', resp_json = None\<rparr>, Suc w)"

definition net_created :: "nat net" where
  "net_created req w =
     (\<lparr>status_code = 201, resp_text = ''[]'', resp_json = Some (PList [])\<rparr>, w)"

definition roster_sheet :: sheet where
  "roster_sheet = \<lparr>cell_value = (\<lambda>col row.
      if col = ''C'' \<and> row = 2 then CStr ''None''
      else if col = ''D'' \<and> row = 2 then CStr ''555-0000''
      else if col = ''C'' \<and> row = 3 then CStr '' Jane Doe ''
      else if col = ''D'' \<and> row = 3 then CStr ''555-1212''
      else if col = ''C'' \<and> row = 4 then CStr ''BRYAN ROGERS''
      else if col = ''C'' \<and> row = 5 then CStr ''SPARE''
      else CNone), max_row = 5\<rparr>"

definition inv_sheet :: sheet where
  "inv_sheet = \<lparr>cell_value = (\<lambda>col row.
      if col = ''G'' \<and> row = 2 then CStr ''Ram''
      else if col = ''O'' \<and> row = 2 then CInt 10000
      else if col = ''Q'' \<and> row = 2 then CInt 8000
      else if col = ''G'' \<and> row = 3 then CStr ''Jeep''
      else if col = ''O'' \<and> row = 3 then CInt 10000
      else if col = ''Q'' \<and> row = 3 then CInt 0
      else if col = ''G'' \<and> row = 4 then CStr ''Dodge''
      else if col = ''C'' \<and> row = 4 then CStr '' UnSOLD 3/1''
      else CNone), max_row = 4\<rparr>"

definition mail_sheet :: sheet where
  "mail_sheet = \<lparr>cell_value = (\<lambda>col row.
      if col = ''E'' \<and> row = 2 then CStr ''62656''
      else if col = ''D'' \<and> row = 2 then CStr ''Lincoln''
      else if col = ''B'' \<and> row = 2 then CInt 1000
      else if col = ''F'' \<and> row = 2 then CInt 50
      else if col = ''E'' \<and> row = 3 then CStr ''62701''
      else if col = ''D'' \<and> row = 3 then CStr ''Springfield''
      else if col = ''B'' \<and> row = 3 then CInt 0
      else if col = ''F'' \<and> row = 3 then CInt 50
      else CNone), max_row = 3\<rparr>"

definition net_existing :: "nat net" where
  "net_existing req w =
     (\<lparr>status_code = 200, resp_text = ''[...]'',
       resp_json = Some (PList [PDict [(''id'', PStr ''e1''), (''name'', PStr ''Lincoln'')]])\<rparr>, w)"

definition deals_sheet :: sheet where
  "deals_sheet = \<lparr>cell_value = (\<lambda>col row.
      if col = ''I'' \<and> 9 \<le> row then CStr ''cust'' else CNone), max_row = 29\<rparr>"

definition sample_wb :: workbook where
  "sample_wb name =
     (if name = ''Roster & Tables'' then Some roster_sheet
      else if name = ''INVENTORY'' then Some inv_sheet
      else if name = ''DEAL LOG'' then Some deals_sheet
      else if name = ''MAIL TRACKING'' then Some mail_sheet
      else None)"

definition mail_entries_sample :: "pyval list" where
  "mail_entries_sample =
     [PDict
       [(''event_id'', PStr ''e1''), (''campaign_name'', PStr ''WIN BIG''),
        (''zip_code'', PStr ''62656''), (''town'', PStr ''Lincoln''),
        (''pieces_sent'', PInt 1000), (''day1_responses'', PInt 0),
        (''day2_responses'', PInt 0), (''day3_responses'', PInt 0),
        (''day4_responses'', PInt 0), (''day5_responses'', PInt 0),
        (''day6_responses'', PInt 0), (''day7_responses'', PInt 0),
        (''total_responses'', PInt 50), (''response_rate'', PFloat (fl 5 100))],
      PDict
       [(''event_id'', PStr ''e1''), (''campaign_name'', PStr ''WIN BIG''),
        (''zip_code'', PStr ''62701''), (''town'', PStr ''Springfield''),
        (''pieces_sent'', PInt 0), (''day1_responses'', PInt 0),
        (''day2_responses'', PInt 0), (''day3_responses'', PInt 0),
        (''day4_responses'', PInt 0), (''day5_responses'', PInt 0),
        (''day6_responses'', PInt 0), (''day7_responses'', PInt 0),
        (''total_responses'', PInt 50), (''response_rate'', PInt 0)]]"

definition sample_children :: "request list" where
  "sample_children =
     [api_request ''post'' ''roster'' (PList (roster_data (PStr ''e1'') roster_sheet)) [],
      api_request ''post'' ''vehicle_inventory'' (PList (inv_data (PStr ''e1'') inv_sheet)) [],
      api_request ''post'' ''deals_v2'' (PList (deals_data (PStr ''e1'') deals_sheet)) [],
      api_request ''post'' ''mail_tracking''
        (PList mail_entries_sample) [],
      api_request ''post'' ''event_config'' (config (PStr ''e1'')) []]"

definition failed_run :: "nat run" where
  "failed_run =
     \<lparr>world = 5,
      sent = [events_get, api_request ''get'' ''profiles'' PNone profiles_query,
              api_request ''post'' ''events'' (PDict (event_data PNone)) [],
              sql_request, events_get],
      out = [''  ERROR 404: not found'', ''  ERROR 404: not found'',
             ''  ERROR 404: not found'', ''  ERROR 404: not found'']\<rparr>"

definition blank_sheet :: sheet where
  "blank_sheet = \<lparr>cell_value = (\<lambda>col row. CNone), max_row = 1\<rparr>"

text \<open>A sheet whose text cells carry a no-break space (U+00A0) at an end.\<close>

definition nbsp_sheet :: sheet where
  "nbsp_sheet = \<lparr>cell_value = (\<lambda>col row.
      if col = ''C'' \<and> row = 2 then CStr [CHR ''N'', CHR ''o'', CHR ''n'', CHR ''e'',
          CHR 0xA0]
      else if col = ''C'' \<and> row = 3 then CStr [CHR ''B'', CHR ''R'', CHR ''Y'',
          CHR ''A'', CHR ''N'', CHR '' '', CHR ''R'', CHR ''O'', CHR ''G'', CHR ''E'',
              CHR ''R'', CHR ''S'', CHR 0xA0]
      else if col = ''A'' \<and> row = 4 then CStr (CHR 0xA0 # ''5'')
      else if col = ''C'' \<and> row = 4 then CStr [CHR 0xA0]
      else if col = ''G'' \<and> row = 5 then CStr ''Ram''
      else if col = ''O'' \<and> row = 5 then CStr (CHR 0xA0 # ''10000'')
      else if col = ''Q'' \<and> row = 5 then CInt 8000
      else if col = ''E'' \<and> row = 6 then CStr ''62656''
      else if col = ''D'' \<and> row = 6 then CStr ''Lincoln''
      else if col = ''B'' \<and> row = 6 then CStr (CHR 0xA0 # ''1000'')
      else if col = ''F'' \<and> row = 6 then CInt 50
      else CNone), max_row = 6\<rparr>"

section \<open>Properties of the cell coercion helpers\<close>

lemmas float_eval =
  fl_def flog2_def scale2_def rhe_div_def Let_def bit_length.simps norm_me.simps frac_of_def

lemmas parse_eval =
  float_of_str_def is_ascii_def py_isspace_def py_lower_def lower_char_def c_isspace_def
  split_sign_def
  parse_decimal_def parse_exponent_def is_digit_def digits_val_def digit_val_def Let_def

lemma hd_dropWhile_not: "dropWhile P xs \<noteq> [] \<Longrightarrow> \<not> P (hd (dropWhile P xs))"
  by (induction xs) auto

lemma strip_right_prefix: "\<exists>zs. ys = rev (dropWhile P (rev ys)) @ zs"
proof -
  have "rev (takeWhile P (rev ys) @ dropWhile P (rev ys))
      = rev (dropWhile P (rev ys)) @ rev (takeWhile P (rev ys))"
    by (rule rev_append)
  moreover have "rev (takeWhile P (rev ys) @ dropWhile P (rev ys)) = ys"
    by (simp only: takeWhile_dropWhile_id rev_rev_ident)
  ultimately have "ys = rev (dropWhile P (rev ys)) @ rev (takeWhile P (rev ys))"
    by simp
  then show ?thesis ..
qed

lemma py_strip_edges:
  assumes "py_strip t \<noteq> []"
  shows "\<not> py_isspace (hd (py_strip t))" and "\<not> py_isspace (last (py_strip t))"
proof -
  let ?ys = "dropWhile py_isspace t"
  let ?u = "rev (dropWhile py_isspace (rev ?ys))"
  have u: "py_strip t = ?u" by (simp add: py_strip_def)
  with assms have ne: "dropWhile py_isspace (rev ?ys) \<noteq> []" by simp
  obtain zs where zs: "?ys = ?u @ zs" using strip_right_prefix by blast
  from assms u have une: "?u \<noteq> []" by simp
  with zs have "hd ?ys = hd ?u" by (metis hd_append2)
  moreover from zs une have "?ys \<noteq> []" by (metis Nil_is_append_conv)
  then have "\<not> py_isspace (hd ?ys)" by (rule hd_dropWhile_not)
  ultimately show "\<not> py_isspace (hd (py_strip t))" using u by simp
  have "last ?u = hd (dropWhile py_isspace (rev ?ys))"
    using ne by (simp add: last_rev)
  moreover have "\<not> py_isspace (hd (dropWhile py_isspace (rev ?ys)))"
    using ne by (rule hd_dropWhile_not)
  ultimately show "\<not> py_isspace (last (py_strip t))" using u by simp
qed

lemma dropWhile_all: "(\<forall>x\<in>set (dropWhile P u). P x) \<longleftrightarrow> (\<forall>x\<in>set u. P x)"
proof
  assume a: "\<forall>x\<in>set (dropWhile P u). P x"
  have "dropWhile P u = []"
  proof (rule ccontr)
    assume ne: "dropWhile P u \<noteq> []"
    then have "hd (dropWhile P u) \<in> set (dropWhile P u)" by simp
    with a have "P (hd (dropWhile P u))" by blast
    with hd_dropWhile_not [OF ne] show False by blast
  qed
  then show "\<forall>x\<in>set u. P x" by (simp add: dropWhile_eq_Nil_conv)
next
  assume "\<forall>x\<in>set u. P x"
  then show "\<forall>x\<in>set (dropWhile P u). P x" by (meson set_dropWhileD)
qed

lemma py_strip_empty: "py_strip u = [] \<longleftrightarrow> list_all py_isspace u"
  by (simp add: py_strip_def dropWhile_eq_Nil_conv dropWhile_all list_all_iff)

lemma float_of_str_empty: "float_of_str '''' = Inl ValueError"
  by (simp add: parse_eval)

lemma parse_decimal_42_9: "parse_decimal ''42.9'' = Some (429, 10)"
  by (simp add: parse_eval)

lemma fl_429_10: "fl 429 10 = Finite 6037638250443571 (- 47)"
  by (simp add: float_eval)

lemma float_of_str_42_9: "float_of_str ''42.9'' = Inr (Finite 6037638250443571 (- 47))"
  using parse_decimal_42_9 fl_429_10
  by (simp add: float_of_str_def is_ascii_def py_lower_def lower_char_def c_isspace_def
      split_sign_def)

lemma int_of_float_42_9: "int_of_float (Finite 6037638250443571 (- 47)) = Inr 42"
  by (simp add: frac_of_def scale2_def)

lemma s_cell_nbsp:
  "s_cell (CStr [CHR ''N'', CHR ''o'', CHR ''n'', CHR ''e'', CHR 0xA0]) = Some ''None''"
  "s_cell (CStr [CHR ''B'', CHR ''R'', CHR ''Y'', CHR ''A'', CHR ''N'', CHR '' '',
      CHR ''R'', CHR ''O'', CHR ''G'', CHR ''E'', CHR ''R'', CHR ''S'',
          CHR 0xA0]) = Some ''BRYAN ROGERS''"
  "s_cell (CStr [CHR 0xA0]) = Some []"
  "s_cell (CStr (CHR 0xA0 # ''5'')) = Some ''5''"
  "s_cell CNone = None"
  by (simp_all add: s_cell_def py_strip_def py_isspace_def)

lemma parse_decimal_nbsp:
  "parse_decimal ''5'' = Some (5, 1)"
  "parse_decimal ''10000'' = Some (10000, 1)"
  "parse_decimal ''1000'' = Some (1000, 1)"
  by (simp_all add: parse_decimal_def parse_exponent_def is_digit_def digits_val_def
      digit_val_def Let_def)

lemma fl_nbsp:
  "fl 5 1 = Finite 5 0" "fl 1000 1 = Finite 125 3" "fl 10000 1 = Finite 625 4"
  by (simp_all add: float_eval)

lemma float_of_str_nbsp:
  "float_of_str (CHR 0xA0 # ''5'') = Inr (Finite 5 0)"
  "float_of_str (CHR 0xA0 # ''10000'') = Inr (Finite 625 4)"
  "float_of_str (CHR 0xA0 # ''1000'') = Inr (Finite 125 3)"
  using parse_decimal_nbsp fl_nbsp
  by (simp_all add: float_of_str_def is_ascii_def py_isspace_def py_lower_def lower_char_def
      c_isspace_def split_sign_def)

lemma n_cell_nbsp:
  "n_cell (CStr (CHR 0xA0 # ''5'')) = Some (Finite 5 0)"
  "n_cell (CStr (CHR 0xA0 # ''10000'')) = Some (Finite 625 4)"
  by (simp_all add: n_cell_def float_of_str_nbsp)

lemma i_cell_nbsp:
  "i_cell (CStr (CHR 0xA0 # ''5'')) = Some 5"
  "i_cell (CStr (CHR 0xA0 # ''1000'')) = Some 1000"
  by (simp_all add: i_cell_def float_of_str_nbsp frac_of_def scale2_def)

text \<open>
  C2, as the code has it. The three helpers are total functions into an optional value:
  no cell makes them raise. \<^verbatim>\<open>n\<close> and \<^verbatim>\<open>i\<close> return \<^verbatim>\<open>None\<close> for a missing cell and
  for the empty string, and otherwise exactly when \<^verbatim>\<open>float()\<close> (for \<^verbatim>\<open>i\<close> also the
  truncating \<^verbatim>\<open>int()\<close>) raises; \<^verbatim>\<open>i\<close> of the text \<open>42.9\<close> is 42. \<^verbatim>\<open>s\<close> returns \<^verbatim>\<open>None\<close>
  for a missing cell only; for every other cell it returns the string form with no
  blank left at either end, so \<^verbatim>\<open>s\<close> of \<open>  Bob  \<close> is \<open>Bob\<close>, and \<^verbatim>\<open>s\<close> of an empty or
  blank string is the empty string.
\<close>

theorem C2_coercion_helpers:
  "n_cell CNone = None \<and> i_cell CNone = None \<and> s_cell CNone = None
   \<and> n_cell (CStr '''') = None \<and> i_cell (CStr '''') = None
   \<and> i_cell (CStr ''42.9'') = Some 42
   \<and> s_cell (CStr ''  Bob  '') = Some ''Bob''
   \<and> (n_cell v = None \<longleftrightarrow> v = CNone \<or> (\<exists>err. py_float v = Inl err))
   \<and> (v \<noteq> CNone \<and> py_float v = Inr x \<longrightarrow> n_cell v = Some x)
   \<and> (i_cell v = None \<longleftrightarrow>
        v = CNone \<or> (\<exists>err. py_float v = Inl err)
        \<or> (\<exists>y err. py_float v = Inr y \<and> int_of_float y = Inl err))
   \<and> (v \<noteq> CNone \<and> py_float v = Inr x \<and> int_of_float x = Inr k \<longrightarrow> i_cell v = Some k)
   \<and> (s_cell v = None \<longleftrightarrow> v = CNone)
   \<and> (v \<noteq> CNone \<longrightarrow> s_cell v = Some (py_strip (py_str v)))
   \<and> (s_cell v = Some t \<and> t \<noteq> [] \<longrightarrow> \<not> py_isspace (hd t) \<and> \<not> py_isspace (last t))
   \<and> (s_cell (CStr u) = Some [] \<longleftrightarrow> list_all py_isspace u)"
proof -
  have a: "n_cell CNone = None \<and> i_cell CNone = None \<and> s_cell CNone = None"
    by (simp add: n_cell_def i_cell_def s_cell_def)
  have b: "n_cell (CStr '''') = None \<and> i_cell (CStr '''') = None"
    by (simp add: n_cell_def i_cell_def float_of_str_empty)
  have c: "i_cell (CStr ''42.9'') = Some 42"
    by (simp add: i_cell_def float_of_str_42_9 int_of_float_42_9 del: int_of_float.simps)
  have d: "s_cell (CStr ''  Bob  '') = Some ''Bob''"
    by (simp add: s_cell_def py_strip_def py_isspace_def)
  have e: "n_cell v = None \<longleftrightarrow> v = CNone \<or> (\<exists>err. py_float v = Inl err)"
    by (auto simp: n_cell_def split: sum.splits)
  have f: "v \<noteq> CNone \<and> py_float v = Inr x \<longrightarrow> n_cell v = Some x"
    by (simp add: n_cell_def)
  have g: "i_cell v = None \<longleftrightarrow>
        v = CNone \<or> (\<exists>err. py_float v = Inl err)
        \<or> (\<exists>y err. py_float v = Inr y \<and> int_of_float y = Inl err)"
    by (auto simp: i_cell_def split: sum.splits)
  have h: "v \<noteq> CNone \<and> py_float v = Inr x \<and> int_of_float x = Inr k \<longrightarrow> i_cell v = Some k"
    by (simp add: i_cell_def)
  have i: "s_cell v = None \<longleftrightarrow> v = CNone"
    by (simp add: s_cell_def)
  have j: "v \<noteq> CNone \<longrightarrow> s_cell v = Some (py_strip (py_str v))"
    by (simp add: s_cell_def)
  have k: "s_cell v = Some t \<and> t \<noteq> [] \<longrightarrow> \<not> py_isspace (hd t) \<and> \<not> py_isspace (last t)"
    using py_strip_edges [of "py_str v"] by (auto simp: s_cell_def split: if_splits)
  have l: "s_cell (CStr u) = Some [] \<longleftrightarrow> list_all py_isspace u"
    by (simp add: s_cell_def py_strip_empty)
  from a b c d e f g h i j k l show ?thesis by blast
qed

theorem C2_coercion_helpers_witness:
  "n_cell (CStr ''abc'') = None \<and> n_cell (CInt 3) = Some (Finite 3 0)
   \<and> i_cell (CStr ''inf'') = None \<and> i_cell (CFloat (Finite (- 5) (- 1)) ''-2.5'') = Some (- 2)
   \<and> s_cell (CInt (- 12)) = Some ''-12''
   \<and> s_cell (CStr '' a b '') = Some ''a b''
   \<and> s_cell (CStr [CHR ''N'', CHR ''o'', CHR ''n'', CHR ''e'', CHR 0xA0]) = Some ''None''
   \<and> s_cell (CStr [CHR 0xA0]) = Some []
   \<and> n_cell (CStr (CHR 0xA0 # ''5'')) = Some (Finite 5 0)
   \<and> i_cell (CStr (CHR 0xA0 # ''1000'')) = Some 1000"
proof -
  have f: "py_float (CStr ''abc'') = Inl ValueError"
    by (simp add: parse_eval)
  have g: "py_float (CInt 3) = Inr (Finite 3 0)"
    by (simp add: float_of_int_def float_eval)
  have h: "py_float (CStr ''inf'') = Inr (Infinity False)"
    by (simp add: parse_eval)
  have k: "int_of_float (Finite (- 5) (- 1)) = Inr (- 2)"
    by (simp add: frac_of_def scale2_def)
  have p: "py_strip (py_str (CInt (- 12))) = ''-12''"
    by (simp add: py_strip_def py_isspace_def str_int_def str_nat.simps digit_char_def)
  have q: "py_strip (py_str (CStr '' a b '')) = ''a b''"
    by (simp add: py_strip_def py_isspace_def)
  have "n_cell (CStr ''abc'') = None \<and> n_cell (CInt 3) = Some (Finite 3 0)
   \<and> i_cell (CStr ''inf'') = None \<and> i_cell (CFloat (Finite (- 5) (- 1)) ''-2.5'') = Some (- 2)
   \<and> s_cell (CInt (- 12)) = Some ''-12''
   \<and> s_cell (CStr '' a b '') = Some ''a b''"
    using C2_coercion_helpers [of "CStr ''abc''" undefined undefined undefined undefined]
      C2_coercion_helpers [of "CInt 3" "Finite 3 0" undefined undefined undefined]
      C2_coercion_helpers [of "CStr ''inf''" undefined undefined undefined undefined]
      C2_coercion_helpers [of "CFloat (Finite (- 5) (- 1)) ''-2.5''" "Finite (- 5) (- 1)" "- 2"
        undefined undefined]
      C2_coercion_helpers [of "CInt (- 12)" undefined undefined undefined undefined]
      C2_coercion_helpers [of "CStr '' a b ''" undefined undefined undefined undefined]
      f g h k p q
    by simp
  then show ?thesis
    by (simp add: s_cell_nbsp n_cell_nbsp i_cell_nbsp)
qed

text \<open>
  C2 as stated fails for text: the empty string and a blank string are not missing
  cells, and \<^verbatim>\<open>s\<close> returns the empty string for them, not \<^verbatim>\<open>None\<close>.
\<close>

theorem C2_empty_text_counterexample:
  "s_cell (CStr '''') = Some '''' \<and> s_cell (CStr ''   '') = Some ''''"
  by (simp add: s_cell_def py_strip_def py_isspace_def)

section \<open>The remote write client returns a sentinel\<close>

lemma str_int_404: "str_int 404 = ''404''"
  by (simp add: str_int_def str_nat.simps digit_char_def)

text \<open>
  C7. When the response to a call of \<^verbatim>\<open>api\<close> has a status of 400 or more, \<^verbatim>\<open>api\<close> prints
  one line with the status code and the first 200 characters of the body and returns
  \<^verbatim>\<open>None\<close>; it does not raise. On a lower status it returns the parsed JSON body (the
  raw text when the body does not parse) and prints nothing. In both cases the request
  is sent once.
\<close>

theorem C7_api:
  "net (api_request method table data params) (world st) = (r, w) \<longrightarrow>
     (400 \<le> status_code r \<longrightarrow>
        api net method table data params st =
          (PNone, st\<lparr>world := w, sent := sent st @ [api_request method table data params],
             out := out st @
               [''  ERROR '' @ str_int (status_code r) @ '': '' @ take 200 (resp_text r)]\<rparr>))
     \<and> (status_code r < 400 \<longrightarrow>
          api net method table data params st =
            ((case resp_json r of Some j \<Rightarrow> j | None \<Rightarrow> PStr (resp_text r)),
             st\<lparr>world := w, sent := sent st @ [api_request method table data params]\<rparr>))"
  by (auto simp: api_def Let_def split: option.splits)

theorem C7_api_witness:
  "api net404 ''post'' ''roster'' (PList []) [] (init_run 0) =
     (PNone, \<lparr>world = 1, sent = [api_request ''post'' ''roster'' (PList []) []],
        out = [''  ERROR 404: not found'']\<rparr>)
   \<and> api net_created ''post'' ''roster'' (PList []) [] (init_run 0) =
     (PList [], \<lparr>world = 0, sent = [api_request ''post'' ''roster'' (PList []) []], out = []\<rparr>)"
  using C7_api [of net404 "''post''" "''roster''" "PList []" "[]" "init_run 0"
      "\<lparr>status_code = 404, resp_text = ''not found'', resp_json = None\<rparr>" 1]
    C7_api [of net_created "''post''" "''roster''" "PList []" "[]" "init_run 0"
      "\<lparr>status_code = 201, resp_text = ''[]'', resp_json = Some (PList [])\<rparr>" 0]
    str_int_404
  by (simp add: net404_def net_created_def init_run_def)

section \<open>The roster extractor\<close>

lemma set_map_filter: "set (List.map_filter f xs) = {y. \<exists>x\<in>set xs. f x = Some y}"
  by (induction xs) (auto simp: map_filter_simps split: option.splits)

lemma fl_25_100: "fl 25 100 = Finite 1 (- 2)"
  by (simp add: float_eval)

lemma roster_row_None:
  "roster_row event_id ws row = None \<longleftrightarrow>
     (case s_cell (cell_value ws ''C'' row) of
        None \<Rightarrow> True
      | Some nm \<Rightarrow> nm = [] \<or> py_lower nm = ''none'' \<or> py_lower nm = ''spare'')"
  by (simp add: roster_row_def Let_def split: option.splits)

lemma roster_row_Some:
  "roster_row event_id ws row = Some r \<Longrightarrow>
     \<exists>nm. s_cell (cell_value ws ''C'' row) = Some nm \<and> nm \<noteq> []
           \<and> py_lower nm \<noteq> ''none'' \<and> py_lower nm \<noteq> ''spare''
           \<and> r = PDict
               [(''event_id'', event_id),
                (''name'', PStr nm),
                (''phone'', of_str (s_cell (cell_value ws ''D'' row))),
                (''role'', PStr (case map_of roles_map nm of Some x \<Rightarrow> x | None \<Rightarrow> ''sales'')),
                (''confirmed'', PBool True),
                (''commission_pct'', PFloat (Finite 1 (- 2)))]"
  by (cases "s_cell (cell_value ws ''C'' row)")
     (auto simp: roster_row_def Let_def fl_25_100 split: if_splits)

text \<open>
  C6. A roster row is skipped when \<^verbatim>\<open>s\<close> of its name cell (column C) is \<^verbatim>\<open>None\<close>, the
  empty string, or a string whose lower-case form is \<open>none\<close> or \<open>spare\<close>, whatever
  the other cells hold. Every row that is kept gives the record with the event
  identifier, the name, the phone, the role found for the name in \<open>roles_map\<close> (\<open>sales\<close>
  when the name is not there), \<open>confirmed\<close> true and a commission of 0.25, and the roster
  data are exactly the records of the kept rows 2 to 17.
\<close>

theorem C6_roster:
  "(s_cell (cell_value ws ''C'' row) = None \<or> s_cell (cell_value ws ''C'' row) = Some []
      \<or> (\<exists>nm. s_cell (cell_value ws ''C'' row) = Some nm
            \<and> (py_lower nm = ''none'' \<or> py_lower nm = ''spare''))
      \<longrightarrow> roster_row event_id ws row = None)
   \<and> (roster_row event_id ws row = Some r \<longrightarrow>
        (\<exists>nm. s_cell (cell_value ws ''C'' row) = Some nm \<and> nm \<noteq> []
           \<and> py_lower nm \<noteq> ''none'' \<and> py_lower nm \<noteq> ''spare''
           \<and> r = PDict
               [(''event_id'', event_id),
                (''name'', PStr nm),
                (''phone'', of_str (s_cell (cell_value ws ''D'' row))),
                (''role'', PStr (case map_of roles_map nm of Some x \<Rightarrow> x | None \<Rightarrow> ''sales'')),
                (''confirmed'', PBool True),
                (''commission_pct'', PFloat (Finite 1 (- 2)))]))
   \<and> set (roster_data event_id ws) =
       {x. \<exists>k\<in>{2..<18}. roster_row event_id ws k = Some x}"
proof -
  have a: "s_cell (cell_value ws ''C'' row) = None \<or> s_cell (cell_value ws ''C'' row) = Some []
      \<or> (\<exists>nm. s_cell (cell_value ws ''C'' row) = Some nm
            \<and> (py_lower nm = ''none'' \<or> py_lower nm = ''spare''))
      \<longrightarrow> roster_row event_id ws row = None"
    by (auto simp: roster_row_None)
  have b: "set (roster_data event_id ws) =
       {x. \<exists>k\<in>{2..<18}. roster_row event_id ws k = Some x}"
    unfolding roster_data_def set_map_filter by (simp only: set_upt)
  from a b roster_row_Some [of event_id ws row r] show ?thesis by blast
qed

lemmas strip_eval = s_cell_def py_strip_def py_isspace_def py_lower_def lower_char_def

lemma roster_sheet_rows:
  "roster_row (PStr ''e1'') roster_sheet 2 = None"
  "roster_row (PStr ''e1'') roster_sheet 5 = None"
  "roster_row (PStr ''e1'') roster_sheet 6 = None"
  "roster_row (PStr ''e1'') roster_sheet 3 = Some (PDict
     [(''event_id'', PStr ''e1''), (''name'', PStr ''Jane Doe''), (''phone'', PStr ''555-1212''),
      (''role'', PStr ''sales''), (''confirmed'', PBool True),
      (''commission_pct'', PFloat (Finite 1 (- 2)))])"
  "roster_row (PStr ''e1'') roster_sheet 4 = Some (PDict
     [(''event_id'', PStr ''e1''), (''name'', PStr ''BRYAN ROGERS''), (''phone'', PNone),
      (''role'', PStr ''team_leader''), (''confirmed'', PBool True),
      (''commission_pct'', PFloat (Finite 1 (- 2)))])"
  by (simp_all add: roster_row_def roster_sheet_def strip_eval roles_map_def fl_25_100)

lemma nbsp_sheet_cells:
  "cell_value nbsp_sheet ''C'' 2 = CStr [CHR ''N'', CHR ''o'', CHR ''n'', CHR ''e'', CHR 0xA0]"
  "cell_value nbsp_sheet ''C'' 3 = CStr [CHR ''B'', CHR ''R'', CHR ''Y'', CHR ''A'',
      CHR ''N'', CHR '' '', CHR ''R'', CHR ''O'', CHR ''G'', CHR ''E'', CHR ''R'',
          CHR ''S'', CHR 0xA0]"
  "cell_value nbsp_sheet ''A'' 4 = CStr (CHR 0xA0 # ''5'')"
  "cell_value nbsp_sheet ''C'' 4 = CStr [CHR 0xA0]"
  "cell_value nbsp_sheet ''G'' 5 = CStr ''Ram''"
  "cell_value nbsp_sheet ''O'' 5 = CStr (CHR 0xA0 # ''10000'')"
  "cell_value nbsp_sheet ''Q'' 5 = CInt 8000"
  "cell_value nbsp_sheet ''E'' 6 = CStr ''62656''"
  "cell_value nbsp_sheet ''D'' 6 = CStr ''Lincoln''"
  "cell_value nbsp_sheet ''B'' 6 = CStr (CHR 0xA0 # ''1000'')"
  "cell_value nbsp_sheet ''F'' 6 = CInt 50"
  by (simp_all add: nbsp_sheet_def)

lemma nbsp_sheet_blank:
  "cell_value nbsp_sheet ''D'' 2 = CNone" "cell_value nbsp_sheet ''D'' 3 = CNone"
  "col \<notin> {''A'', ''C''} \<Longrightarrow> cell_value nbsp_sheet col 4 = CNone"
  "col \<notin> {''G'', ''O'', ''Q''} \<Longrightarrow> cell_value nbsp_sheet col 5 = CNone"
  "col \<notin> {''E'', ''D'', ''B'', ''F''} \<Longrightarrow> cell_value nbsp_sheet col 6 = CNone"
  by (simp_all add: nbsp_sheet_def)

lemma roster_nbsp_rows:
  "roster_row (PStr ''e1'') nbsp_sheet 2 = None"
  "roster_row (PStr ''e1'') nbsp_sheet 3 = Some (PDict
     [(''event_id'', PStr ''e1''), (''name'', PStr ''BRYAN ROGERS''), (''phone'', PNone),
      (''role'', PStr ''team_leader''), (''confirmed'', PBool True),
      (''commission_pct'', PFloat (Finite 1 (- 2)))])"
  by (simp_all add: roster_row_def nbsp_sheet_cells nbsp_sheet_blank s_cell_nbsp
      py_lower_def lower_char_def roles_map_def fl_25_100)

theorem C6_roster_witness:
  "roster_row (PStr ''e1'') roster_sheet 2 = None
   \<and> roster_row (PStr ''e1'') roster_sheet 5 = None
   \<and> roster_row (PStr ''e1'') roster_sheet 6 = None
   \<and> s_cell (cell_value roster_sheet ''C'' 3) = Some ''Jane Doe''
   \<and> roster_row (PStr ''e1'') roster_sheet 3 = Some (PDict
     [(''event_id'', PStr ''e1''), (''name'', PStr ''Jane Doe''), (''phone'', PStr ''555-1212''),
      (''role'', PStr ''sales''), (''confirmed'', PBool True),
      (''commission_pct'', PFloat (Finite 1 (- 2)))])
   \<and> roster_row (PStr ''e1'') nbsp_sheet 2 = None
   \<and> roster_row (PStr ''e1'') nbsp_sheet 3 = Some (PDict
     [(''event_id'', PStr ''e1''), (''name'', PStr ''BRYAN ROGERS''), (''phone'', PNone),
      (''role'', PStr ''team_leader''), (''confirmed'', PBool True),
      (''commission_pct'', PFloat (Finite 1 (- 2)))])"
proof -
  have c2: "s_cell (cell_value roster_sheet ''C'' 2) = Some ''None''"
    and c5: "s_cell (cell_value roster_sheet ''C'' 5) = Some ''SPARE''"
    and c6: "s_cell (cell_value roster_sheet ''C'' 6) = None"
    and c3: "s_cell (cell_value roster_sheet ''C'' 3) = Some ''Jane Doe''"
    and d3: "s_cell (cell_value roster_sheet ''D'' 3) = Some ''555-1212''"
    by (simp_all add: roster_sheet_def strip_eval)
  have l: "py_lower ''None'' = ''none''" "py_lower ''SPARE'' = ''spare''"
    by (simp_all add: py_lower_def lower_char_def)
  note r3 = roster_sheet_rows(4)
  show ?thesis
    using C6_roster [of roster_sheet 2 "PStr ''e1''" undefined]
      C6_roster [of roster_sheet 5 "PStr ''e1''" undefined]
      C6_roster [of roster_sheet 6 "PStr ''e1''" undefined]
      C6_roster [of roster_sheet 3 "PStr ''e1''"]
      c2 c5 c6 c3 d3 l r3
    by (simp add: roles_map_def roster_nbsp_rows)
qed

section \<open>Derived fields of inventory and mail records\<close>

lemma startswith_iff: "startswith t sub \<longleftrightarrow> (\<exists>suf. t = sub @ suf)"
  by (induction t sub rule: startswith.induct) auto

lemma str_contains_iff: "str_contains sub t \<longleftrightarrow> (\<exists>pre suf. t = pre @ sub @ suf)"
proof (induction t)
  case Nil
  then show ?case by auto
next
  case (Cons c cs)
  have "(\<exists>pre suf. c # cs = pre @ sub @ suf) \<longleftrightarrow>
        (\<exists>suf. c # cs = sub @ suf) \<or> (\<exists>pre suf. cs = pre @ sub @ suf)"
  proof
    assume "\<exists>pre suf. c # cs = pre @ sub @ suf"
    then obtain pre suf where e: "c # cs = pre @ sub @ suf" by blast
    show "(\<exists>suf. c # cs = sub @ suf) \<or> (\<exists>pre suf. cs = pre @ sub @ suf)"
    proof (cases pre)
      case Nil
      with e show ?thesis by auto
    next
      case (Cons p ps)
      with e have "cs = ps @ sub @ suf" by simp
      then show ?thesis by blast
    qed
  next
    assume "(\<exists>suf. c # cs = sub @ suf) \<or> (\<exists>pre suf. cs = pre @ sub @ suf)"
    then show "\<exists>pre suf. c # cs = pre @ sub @ suf"
    proof
      assume "\<exists>suf. c # cs = sub @ suf"
      then obtain suf where "c # cs = [] @ sub @ suf" by auto
      then show ?thesis by blast
    next
      assume "\<exists>pre suf. cs = pre @ sub @ suf"
      then obtain pre suf where "cs = pre @ sub @ suf" by blast
      then have "c # cs = (c # pre) @ sub @ suf" by simp
      then show ?thesis by blast
    qed
  qed
  with Cons show ?case by (simp add: startswith_iff)
qed

lemma inventory_row_dict:
  "inventory_row event_id ws row = Some r \<Longrightarrow>
     \<exists>base. r = PDict (base
         @ pricing_fields (n_cell (cell_value ws ''O'' row)) (n_cell (cell_value ws ''Q'' row))
         @ retail_fields (n_cell (cell_value ws ''P'' row)) (n_cell (cell_value ws ''Q'' row)))
       \<and> map_of base ''sold_status''
           = Some (PStr (sold_status (s_cell (cell_value ws ''C'' row))))
       \<and> map_of base ''event_id'' = Some event_id
       \<and> (\<forall>k\<in>set pricing_keys. map_of base k = None)"
  by (auto simp: inventory_row_def Let_def pricing_keys_def split: if_splits)


lemma retail_fields_keys: "\<forall>k\<in>set pricing_keys. map_of (retail_fields x y) k = None"
  by (auto simp: retail_fields_def pricing_keys_def split: option.splits)

lemma pricing_fields_falsy:
  "\<not> num_truthy x \<or> \<not> num_truthy y \<Longrightarrow> pricing_fields x y = []"
  by (auto simp: pricing_fields_def num_truthy_def split: option.splits)

lemma pricing_fields_truthy:
  assumes "float_truthy T" "float_truthy C"
  shows "pricing_fields (Some T) (Some C) =
     [(''cost_diff'', PFloat (py_round (fsub T C) 2)),
      (''price_115'', PFloat (py_round (fmul T (fl 115 100)) 2)),
      (''profit_115'', PFloat (py_round (fsub (py_round (fmul T (fl 115 100)) 2) C) 2)),
      (''price_120'', PFloat (py_round (fmul T (fl 120 100)) 2)),
      (''profit_120'', PFloat (py_round (fsub (py_round (fmul T (fl 120 100)) 2) C) 2)),
      (''price_125'', PFloat (py_round (fmul T (fl 125 100)) 2)),
      (''profit_125'', PFloat (py_round (fsub (py_round (fmul T (fl 125 100)) 2) C) 2)),
      (''price_130'', PFloat (py_round (fmul T (fl 130 100)) 2)),
      (''profit_130'', PFloat (py_round (fsub (py_round (fmul T (fl 130 100)) 2) C) 2))]"
  using assms by (simp add: pricing_fields_def multipliers_def tier_fields_def Let_def)

lemma map_of_append_None: "map_of xs k = None \<Longrightarrow> map_of (xs @ ys) k = map_of ys k"
  by (simp add: map_add_def)

lemma map_of_append_Some: "map_of xs k = Some v \<Longrightarrow> map_of (xs @ ys) k = Some v"
  by (simp add: map_add_def)

text \<open>
  C10. In the record of every inventory row that is kept, \<open>sold_status\<close> is \<open>sold\<close>
  exactly when \<^verbatim>\<open>s\<close> of the status cell (column C) is a non-empty string whose lower-case
  form has \<open>sold\<close> as a substring, and \<open>available\<close> in every other case, a missing or
  empty cell included.
\<close>

theorem C10_sold_status:
  "inventory_row event_id ws row = Some r \<longrightarrow>
     (\<exists>d. r = PDict d \<and> map_of d ''sold_status'' =
        Some (PStr (if (\<exists>t. s_cell (cell_value ws ''C'' row) = Some t \<and> t \<noteq> []
                          \<and> (\<exists>pre suf. py_lower t = pre @ ''sold'' @ suf))
                    then ''sold'' else ''available'')))"
proof
  assume "inventory_row event_id ws row = Some r"
  from inventory_row_dict [OF this] obtain base where
    r: "r = PDict (base
         @ pricing_fields (n_cell (cell_value ws ''O'' row)) (n_cell (cell_value ws ''Q'' row))
         @ retail_fields (n_cell (cell_value ws ''P'' row)) (n_cell (cell_value ws ''Q'' row)))"
    and b: "map_of base ''sold_status''
           = Some (PStr (sold_status (s_cell (cell_value ws ''C'' row))))"
    by blast
  have eq: "sold_status x = (if (\<exists>t. x = Some t \<and> t \<noteq> []
                          \<and> (\<exists>pre suf. py_lower t = pre @ ''sold'' @ suf))
                    then ''sold'' else ''available'')" for x
    by (cases x) (simp_all add: sold_status_def str_contains_iff)
  have "map_of (base
         @ pricing_fields (n_cell (cell_value ws ''O'' row)) (n_cell (cell_value ws ''Q'' row))
         @ retail_fields (n_cell (cell_value ws ''P'' row)) (n_cell (cell_value ws ''Q'' row)))
        ''sold_status'' = Some (PStr (sold_status (s_cell (cell_value ws ''C'' row))))"
    by (rule map_of_append_Some [OF b])
  then have "map_of (base
         @ pricing_fields (n_cell (cell_value ws ''O'' row)) (n_cell (cell_value ws ''Q'' row))
         @ retail_fields (n_cell (cell_value ws ''P'' row)) (n_cell (cell_value ws ''Q'' row)))
        ''sold_status'' =
        Some (PStr (if (\<exists>t. s_cell (cell_value ws ''C'' row) = Some t \<and> t \<noteq> []
                          \<and> (\<exists>pre suf. py_lower t = pre @ ''sold'' @ suf))
                    then ''sold'' else ''available''))"
    unfolding eq .
  with r show "\<exists>d. r = PDict d \<and> map_of d ''sold_status'' =
        Some (PStr (if (\<exists>t. s_cell (cell_value ws ''C'' row) = Some t \<and> t \<noteq> []
                          \<and> (\<exists>pre suf. py_lower t = pre @ ''sold'' @ suf))
                    then ''sold'' else ''available''))"
    by blast
qed

text \<open>
  C3, as the code has it. In the record of an inventory row whose trade value \<open>T\<close> and
  unit cost \<open>C\<close> are both present and not zero, \<open>cost_diff\<close> is \<open>round(T - C, 2)\<close> and, for
  each multiplier \<open>m\<close> of 1.15, 1.20, 1.25 and 1.30, the price is \<open>round(T * m, 2)\<close> and
  the profit is \<open>round(price - C, 2)\<close>. When the trade value or the unit cost is absent
  or zero, the record has none of the nine pricing fields.
\<close>

theorem C3_pricing_tiers:
  "inventory_row event_id ws row = Some r \<longrightarrow>
     (\<exists>d. r = PDict d
        \<and> (n_cell (cell_value ws ''O'' row) = Some T \<and> n_cell (cell_value ws ''Q'' row) = Some C
             \<and> float_truthy T \<and> float_truthy C \<longrightarrow>
             map_of d ''cost_diff'' = Some (PFloat (py_round (fsub T C) 2))
             \<and> (\<forall>(m, p)\<in>set [(fl 115 100, ''115''), (fl 120 100, ''120''),
                              (fl 125 100, ''125''), (fl 130 100, ''130'')].
                  map_of d (''price_'' @ p) = Some (PFloat (py_round (fmul T m) 2))
                  \<and> map_of d (''profit_'' @ p) =
                      Some (PFloat (py_round (fsub (py_round (fmul T m) 2) C) 2))))
        \<and> (\<not> num_truthy (n_cell (cell_value ws ''O'' row))
             \<or> \<not> num_truthy (n_cell (cell_value ws ''Q'' row)) \<longrightarrow>
             (\<forall>k\<in>set pricing_keys. map_of d k = None)))"
proof
  assume "inventory_row event_id ws row = Some r"
  from inventory_row_dict [OF this] obtain base where
    r: "r = PDict (base
         @ pricing_fields (n_cell (cell_value ws ''O'' row)) (n_cell (cell_value ws ''Q'' row))
         @ retail_fields (n_cell (cell_value ws ''P'' row)) (n_cell (cell_value ws ''Q'' row)))"
    and b: "\<forall>k\<in>set pricing_keys. map_of base k = None"
    by blast
  let ?pf = "pricing_fields (n_cell (cell_value ws ''O'' row)) (n_cell (cell_value ws ''Q'' row))"
  let ?rf = "retail_fields (n_cell (cell_value ws ''P'' row)) (n_cell (cell_value ws ''Q'' row))"
  let ?d = "base @ ?pf @ ?rf"
  have look: "map_of ?d k = (case map_of ?pf k of Some v \<Rightarrow> Some v | None \<Rightarrow> None)"
    if "k \<in> set pricing_keys" for k
    using that b retail_fields_keys [of "n_cell (cell_value ws ''P'' row)"
        "n_cell (cell_value ws ''Q'' row)"]
    by (auto simp: map_add_def split: option.splits)
  have pos: "map_of ?d ''cost_diff'' = Some (PFloat (py_round (fsub T C) 2))
             \<and> (\<forall>(m, p)\<in>set [(fl 115 100, ''115''), (fl 120 100, ''120''),
                              (fl 125 100, ''125''), (fl 130 100, ''130'')].
                  map_of ?d (''price_'' @ p) = Some (PFloat (py_round (fmul T m) 2))
                  \<and> map_of ?d (''profit_'' @ p) =
                      Some (PFloat (py_round (fsub (py_round (fmul T m) 2) C) 2)))"
    if h: "n_cell (cell_value ws ''O'' row) = Some T" "n_cell (cell_value ws ''Q'' row) = Some C"
      "float_truthy T" "float_truthy C"
  proof -
    have pf: "?pf = pricing_fields (Some T) (Some C)" using h by simp
    have "map_of ?d k = map_of (pricing_fields (Some T) (Some C)) k"
      if "k \<in> set pricing_keys" for k
      using look [OF that] pf by (simp split: option.splits)
    then show ?thesis
      by (simp add: pricing_keys_def pricing_fields_truthy [OF h(3) h(4)])
  qed
  have neg: "\<forall>k\<in>set pricing_keys. map_of ?d k = None"
    if "\<not> num_truthy (n_cell (cell_value ws ''O'' row))
             \<or> \<not> num_truthy (n_cell (cell_value ws ''Q'' row))"
    using look pricing_fields_falsy [OF that] by simp
  from r pos neg show "\<exists>d. r = PDict d
        \<and> (n_cell (cell_value ws ''O'' row) = Some T \<and> n_cell (cell_value ws ''Q'' row) = Some C
             \<and> float_truthy T \<and> float_truthy C \<longrightarrow>
             map_of d ''cost_diff'' = Some (PFloat (py_round (fsub T C) 2))
             \<and> (\<forall>(m, p)\<in>set [(fl 115 100, ''115''), (fl 120 100, ''120''),
                              (fl 125 100, ''125''), (fl 130 100, ''130'')].
                  map_of d (''price_'' @ p) = Some (PFloat (py_round (fmul T m) 2))
                  \<and> map_of d (''profit_'' @ p) =
                      Some (PFloat (py_round (fsub (py_round (fmul T m) 2) C) 2))))
        \<and> (\<not> num_truthy (n_cell (cell_value ws ''O'' row))
             \<or> \<not> num_truthy (n_cell (cell_value ws ''Q'' row)) \<longrightarrow>
             (\<forall>k\<in>set pricing_keys. map_of d k = None))"
    by blast
qed


lemma n_cell_samples:
  "n_cell (CInt 10000) = Some (Finite 625 4)"
  "n_cell (CInt 8000) = Some (Finite 125 6)"
  "n_cell (CInt 0) = Some (Finite 0 0)"
  "n_cell CNone = None"
  by (simp_all add: n_cell_def float_of_int_def float_eval)

lemma i_cell_samples:
  "i_cell (CInt 1000) = Some 1000"
  "i_cell (CInt 50) = Some 50"
  "i_cell (CInt 0) = Some 0"
  "i_cell CNone = None"
  by (simp_all add: i_cell_def float_of_int_def float_eval)

lemma s_cell_samples:
  "s_cell CNone = None"
  "s_cell (CStr ''Ram'') = Some ''Ram''"
  "s_cell (CStr ''Jeep'') = Some ''Jeep''"
  "s_cell (CStr ''Dodge'') = Some ''Dodge''"
  "s_cell (CStr '' UnSOLD 3/1'') = Some ''UnSOLD 3/1''"
  "s_cell (CStr ''62656'') = Some ''62656''"
  "s_cell (CStr ''Lincoln'') = Some ''Lincoln''"
  "s_cell (CStr ''62701'') = Some ''62701''"
  "s_cell (CStr ''Springfield'') = Some ''Springfield''"
  by (simp_all add: s_cell_def py_strip_def py_isspace_def)

lemma fl_literals:
  "fl 115 100 = Finite 2589569785738035 (- 51)"
  "fl 120 100 = Finite 5404319552844595 (- 52)"
  "fl 125 100 = Finite 5 (- 2)"
  "fl 130 100 = Finite 5854679515581645 (- 52)"
  "fl 10000 1 = Finite 625 4"
  "fl 8000 1 = Finite 125 6"
  "fl 11500 1 = Finite 2875 2"
  "fl 3500 1 = Finite 875 2"
  "fl 5 100 = Finite 3602879701896397 (- 56)"
  by (simp_all add: float_eval)

lemma pricing_fields_sample:
  "pricing_fields (Some (Finite 625 4)) (Some (Finite 125 6)) =
     [(''cost_diff'', PFloat (Finite 125 4)),
      (''price_115'', PFloat (Finite 2875 2)),
      (''profit_115'', PFloat (Finite 875 2)),
      (''price_120'', PFloat (Finite 375 5)),
      (''profit_120'', PFloat (Finite 125 5)),
      (''price_125'', PFloat (Finite 3125 2)),
      (''profit_125'', PFloat (Finite 1125 2)),
      (''price_130'', PFloat (Finite 1625 3)),
      (''profit_130'', PFloat (Finite 625 3))]"
  by (simp add: pricing_fields_def multipliers_def tier_fields_def float_truthy_def fl_literals
      float_eval)

lemma inv_sheet_cells:
  "cell_value inv_sheet ''G'' 2 = CStr ''Ram''"
  "cell_value inv_sheet ''O'' 2 = CInt 10000"
  "cell_value inv_sheet ''Q'' 2 = CInt 8000"
  "cell_value inv_sheet ''G'' 3 = CStr ''Jeep''"
  "cell_value inv_sheet ''O'' 3 = CInt 10000"
  "cell_value inv_sheet ''Q'' 3 = CInt 0"
  "cell_value inv_sheet ''G'' 4 = CStr ''Dodge''"
  "cell_value inv_sheet ''C'' 4 = CStr '' UnSOLD 3/1''"
  by (simp_all add: inv_sheet_def)

lemma inv_sheet_blank:
  "col \<notin> {''G'', ''O'', ''Q'', ''C''} \<Longrightarrow> cell_value inv_sheet col row = CNone"
  "cell_value inv_sheet ''C'' 2 = CNone" "cell_value inv_sheet ''C'' 3 = CNone"
  "cell_value inv_sheet ''O'' 4 = CNone" "cell_value inv_sheet ''Q'' 4 = CNone"
  by (simp_all add: inv_sheet_def)

lemma inv_row2:
  "inventory_row (PStr ''e1'') inv_sheet 2 = Some (PDict
     [(''event_id'', PStr ''e1''), (''hat_number'', PNone), (''status_label'', PNone),
      (''sold_status'', PStr ''available''), (''stock_number'', PNone), (''year'', PNone),
      (''make'', PNone), (''model'', PStr ''Ram''), (''class'', PNone), (''color'', PNone),
      (''odometer'', PNone), (''vin'', PNone), (''series_trim'', PNone), (''age_days'', PNone),
      (''drivetrain'', PNone), (''jd_trade_clean'', PFloat (Finite 625 4)),
      (''jd_retail_clean'', PNone), (''unit_cost'', PFloat (Finite 125 6)),
      (''cost_diff'', PFloat (Finite 125 4)),
      (''price_115'', PFloat (Finite 2875 2)),
      (''profit_115'', PFloat (Finite 875 2)),
      (''price_120'', PFloat (Finite 375 5)),
      (''profit_120'', PFloat (Finite 125 5)),
      (''price_125'', PFloat (Finite 3125 2)),
      (''profit_125'', PFloat (Finite 1125 2)),
      (''price_130'', PFloat (Finite 1625 3)),
      (''profit_130'', PFloat (Finite 625 3))])"
  by (simp add: inventory_row_def Let_def inv_sheet_cells inv_sheet_blank n_cell_samples
      i_cell_samples s_cell_samples pricing_fields_sample retail_fields_def sold_status_def
      str_falsy_def int_truthy_def)

lemma inv_row3:
  "inventory_row (PStr ''e1'') inv_sheet 3 = Some (PDict
     [(''event_id'', PStr ''e1''), (''hat_number'', PNone), (''status_label'', PNone),
      (''sold_status'', PStr ''available''), (''stock_number'', PNone), (''year'', PNone),
      (''make'', PNone), (''model'', PStr ''Jeep''), (''class'', PNone), (''color'', PNone),
      (''odometer'', PNone), (''vin'', PNone), (''series_trim'', PNone), (''age_days'', PNone),
      (''drivetrain'', PNone), (''jd_trade_clean'', PFloat (Finite 625 4)),
      (''jd_retail_clean'', PNone), (''unit_cost'', PFloat (Finite 0 0))])"
  by (simp add: inventory_row_def Let_def inv_sheet_cells inv_sheet_blank n_cell_samples
      i_cell_samples s_cell_samples pricing_fields_def retail_fields_def sold_status_def
      str_falsy_def int_truthy_def float_truthy_def)

lemma inv_row4:
  "inventory_row (PStr ''e1'') inv_sheet 4 = Some (PDict
     [(''event_id'', PStr ''e1''), (''hat_number'', PNone), (''status_label'', PNone),
      (''sold_status'', PStr ''sold''), (''stock_number'', PNone), (''year'', PNone),
      (''make'', PNone), (''model'', PStr ''Dodge''), (''class'', PNone), (''color'', PNone),
      (''odometer'', PNone), (''vin'', PNone), (''series_trim'', PNone), (''age_days'', PNone),
      (''drivetrain'', PNone), (''jd_trade_clean'', PNone),
      (''jd_retail_clean'', PNone), (''unit_cost'', PNone)])"
  by (simp add: inventory_row_def Let_def inv_sheet_cells inv_sheet_blank n_cell_samples
      i_cell_samples s_cell_samples pricing_fields_def retail_fields_def sold_status_def
      str_falsy_def int_truthy_def py_lower_def lower_char_def)


lemma inv_nbsp_row4:
  "inventory_row (PStr ''e1'') nbsp_sheet 4 = Some (PDict
     [(''event_id'', PStr ''e1''), (''hat_number'', PInt 5), (''status_label'', PNone),
      (''sold_status'', PStr ''available''), (''stock_number'', PNone), (''year'', PNone),
      (''make'', PNone), (''model'', PNone), (''class'', PNone), (''color'', PNone),
      (''odometer'', PNone), (''vin'', PNone), (''series_trim'', PNone), (''age_days'', PNone),
      (''drivetrain'', PNone), (''jd_trade_clean'', PNone),
      (''jd_retail_clean'', PNone), (''unit_cost'', PNone)])"
  by (simp add: inventory_row_def Let_def nbsp_sheet_cells nbsp_sheet_blank n_cell_samples
      i_cell_samples i_cell_nbsp s_cell_samples s_cell_nbsp pricing_fields_def retail_fields_def
      sold_status_def str_falsy_def int_truthy_def)

lemma inv_nbsp_row5:
  "inventory_row (PStr ''e1'') nbsp_sheet 5 = Some (PDict
     [(''event_id'', PStr ''e1''), (''hat_number'', PNone), (''status_label'', PNone),
      (''sold_status'', PStr ''available''), (''stock_number'', PNone), (''year'', PNone),
      (''make'', PNone), (''model'', PStr ''Ram''), (''class'', PNone), (''color'', PNone),
      (''odometer'', PNone), (''vin'', PNone), (''series_trim'', PNone), (''age_days'', PNone),
      (''drivetrain'', PNone), (''jd_trade_clean'', PFloat (Finite 625 4)),
      (''jd_retail_clean'', PNone), (''unit_cost'', PFloat (Finite 125 6)),
      (''cost_diff'', PFloat (Finite 125 4)),
      (''price_115'', PFloat (Finite 2875 2)),
      (''profit_115'', PFloat (Finite 875 2)),
      (''price_120'', PFloat (Finite 375 5)),
      (''profit_120'', PFloat (Finite 125 5)),
      (''price_125'', PFloat (Finite 3125 2)),
      (''profit_125'', PFloat (Finite 1125 2)),
      (''price_130'', PFloat (Finite 1625 3)),
      (''profit_130'', PFloat (Finite 625 3))])"
  by (simp add: inventory_row_def Let_def nbsp_sheet_cells nbsp_sheet_blank n_cell_samples
      n_cell_nbsp i_cell_samples s_cell_samples pricing_fields_sample retail_fields_def
      sold_status_def str_falsy_def int_truthy_def)

text \<open>
  Two rows of the sample sheet, one sold and one with an empty status cell, and a row
  kept for its hat number whose status cell holds a no-break space.
\<close>

theorem C10_sold_status_witness:
  "inventory_row (PStr ''e1'') inv_sheet 4 \<noteq> None
   \<and> s_cell (cell_value inv_sheet ''C'' 4) = Some ''UnSOLD 3/1''
   \<and> py_lower ''UnSOLD 3/1'' = ''un'' @ ''sold'' @ '' 3/1''
   \<and> (case inventory_row (PStr ''e1'') inv_sheet 4 of
         Some (PDict d) \<Rightarrow> map_of d ''sold_status'' = Some (PStr ''sold'') | _ \<Rightarrow> False)
   \<and> s_cell (cell_value inv_sheet ''C'' 2) = None
   \<and> (case inventory_row (PStr ''e1'') inv_sheet 2 of
         Some (PDict d) \<Rightarrow> map_of d ''sold_status'' = Some (PStr ''available'') | _ \<Rightarrow> False)
   \<and> s_cell (cell_value nbsp_sheet ''C'' 4) = Some []
   \<and> (case inventory_row (PStr ''e1'') nbsp_sheet 4 of
         Some (PDict d) \<Rightarrow>
           map_of d ''sold_status'' = Some (PStr ''available'')
           \<and> map_of d ''hat_number'' = Some (PInt 5)
       | _ \<Rightarrow> False)"
proof -
  have l: "py_lower ''UnSOLD 3/1'' = ''un'' @ ''sold'' @ '' 3/1''"
    by (simp add: py_lower_def lower_char_def)
  have c: "s_cell (cell_value inv_sheet ''C'' 4) = Some ''UnSOLD 3/1''"
    "s_cell (cell_value inv_sheet ''C'' 2) = None"
    by (simp_all add: inv_sheet_cells inv_sheet_blank s_cell_samples)
  show ?thesis
    using C10_sold_status [of "PStr ''e1''" inv_sheet 4, THEN mp, OF inv_row4]
      C10_sold_status [of "PStr ''e1''" inv_sheet 2, THEN mp, OF inv_row2] l c
    by (simp add: inv_row4 inv_row2 inv_nbsp_row4 nbsp_sheet_cells s_cell_nbsp)
qed

text \<open>
  A trade value of 10000 and a cost of 8000 give a price of 11500.0 and a profit of
  3500.0 in the 1.15 tier; a row without trade value and cost has no pricing field.
\<close>

theorem C3_pricing_tiers_witness:
  "n_cell (cell_value inv_sheet ''O'' 2) = Some (fl 10000 1)
   \<and> n_cell (cell_value inv_sheet ''Q'' 2) = Some (fl 8000 1)
   \<and> float_truthy (fl 10000 1) \<and> float_truthy (fl 8000 1)
   \<and> (case inventory_row (PStr ''e1'') inv_sheet 2 of
         Some (PDict d) \<Rightarrow>
           map_of d ''price_115'' = Some (PFloat (fl 11500 1))
           \<and> map_of d ''profit_115'' = Some (PFloat (fl 3500 1))
       | _ \<Rightarrow> False)
   \<and> n_cell (cell_value inv_sheet ''O'' 4) = None
   \<and> (case inventory_row (PStr ''e1'') inv_sheet 4 of
         Some (PDict d) \<Rightarrow> list_all (\<lambda>k. map_of d k = None) pricing_keys
       | _ \<Rightarrow> False)
   \<and> n_cell (cell_value nbsp_sheet ''O'' 5) = Some (fl 10000 1)
   \<and> (case inventory_row (PStr ''e1'') nbsp_sheet 5 of
         Some (PDict d) \<Rightarrow> map_of d ''price_115'' = Some (PFloat (fl 11500 1))
       | _ \<Rightarrow> False)"
proof -
  have c: "n_cell (cell_value inv_sheet ''O'' 2) = Some (Finite 625 4)"
    "n_cell (cell_value inv_sheet ''Q'' 2) = Some (Finite 125 6)"
    "n_cell (cell_value inv_sheet ''O'' 4) = None"
    by (simp_all add: inv_sheet_cells inv_sheet_blank n_cell_samples)
  show ?thesis
    using C3_pricing_tiers [of "PStr ''e1''" inv_sheet 2 _ "Finite 625 4" "Finite 125 6",
        THEN mp, OF inv_row2]
      C3_pricing_tiers [of "PStr ''e1''" inv_sheet 4 _ undefined undefined, THEN mp,
        OF inv_row4] c
    by (simp add: inv_row2 inv_row4 fl_literals float_truthy_def pricing_keys_def
        inv_nbsp_row5 nbsp_sheet_cells n_cell_nbsp)
qed

text \<open>
  C3 as stated fails when a value is there but zero: with a trade value of 10000 and a
  unit cost of 0 both are available, and the record has no pricing field.
\<close>

theorem C3_zero_cost_counterexample:
  "n_cell (cell_value inv_sheet ''O'' 3) = Some (fl 10000 1)
   \<and> n_cell (cell_value inv_sheet ''Q'' 3) = Some (Finite 0 0)
   \<and> inventory_row (PStr ''e1'') inv_sheet 3 = Some (PDict
     [(''event_id'', PStr ''e1''), (''hat_number'', PNone), (''status_label'', PNone),
      (''sold_status'', PStr ''available''), (''stock_number'', PNone), (''year'', PNone),
      (''make'', PNone), (''model'', PStr ''Jeep''), (''class'', PNone), (''color'', PNone),
      (''odometer'', PNone), (''vin'', PNone), (''series_trim'', PNone), (''age_days'', PNone),
      (''drivetrain'', PNone), (''jd_trade_clean'', PFloat (fl 10000 1)),
      (''jd_retail_clean'', PNone), (''unit_cost'', PFloat (Finite 0 0))])"
  by (simp add: inv_sheet_cells n_cell_samples inv_row3 fl_literals)

lemma mail_row_rate:
  "mail_row event_id ws row = Inr (Some r) \<Longrightarrow>
     \<exists>d rate. r = PDict d
       \<and> response_rate (i_cell (cell_value ws ''B'' row)) (i_cell (cell_value ws ''F'' row))
           = Inr rate
       \<and> map_of d ''response_rate'' = Some rate \<and> map_of d ''event_id'' = Some event_id"
  by (auto simp: mail_row_def Let_def split: if_splits sum.splits)

lemma int_truediv_50_1000: "int_truediv 50 1000 = Inr (Finite 3602879701896397 (- 56))"
  by (simp add: int_truediv_def float_eval)

lemma py_round_rate: "py_round (Finite 3602879701896397 (- 56)) 4 = Finite 3602879701896397 (- 56)"
  by (simp add: float_eval)

lemma response_rate_sample: "response_rate (Some 1000) (Some 50) = Inr (PFloat (fl 5 100))"
  by (simp add: response_rate_def int_truediv_50_1000 py_round_rate fl_literals
      del: py_round.simps)

text \<open>
  C5. The \<open>response_rate\<close> field of a mail entry is
  \<open>round(total_resp / pieces, 4)\<close> when pieces sent and total responses are both there
  and not zero, and the integer 0 otherwise; the division is never by zero. 1000 pieces
  and 50 responses give 0.05; zero pieces, or no total, give 0.
\<close>

theorem C5_response_rate:
  "(mail_row event_id ws row = Inr (Some r) \<longrightarrow>
      (\<exists>d rate. r = PDict d
         \<and> response_rate (i_cell (cell_value ws ''B'' row)) (i_cell (cell_value ws ''F'' row))
             = Inr rate
         \<and> map_of d ''response_rate'' = Some rate))
   \<and> (p \<noteq> 0 \<and> t \<noteq> 0 \<and> int_truediv t p = Inr q \<longrightarrow>
        response_rate (Some p) (Some t) = Inr (PFloat (py_round q 4)))
   \<and> (\<not> int_truthy pieces \<or> \<not> int_truthy total_resp \<longrightarrow>
        response_rate pieces total_resp = Inr (PInt 0))
   \<and> response_rate pieces total_resp \<noteq> Inl ZeroDivisionError
   \<and> response_rate (Some 1000) (Some 50) = Inr (PFloat (fl 5 100))
   \<and> response_rate (Some 0) total_resp = Inr (PInt 0)
   \<and> response_rate pieces None = Inr (PInt 0)"
proof -
  have a: "mail_row event_id ws row = Inr (Some r) \<longrightarrow>
      (\<exists>d rate. r = PDict d
         \<and> response_rate (i_cell (cell_value ws ''B'' row)) (i_cell (cell_value ws ''F'' row))
             = Inr rate
         \<and> map_of d ''response_rate'' = Some rate)"
    using mail_row_rate [of event_id ws row r] by blast
  have b: "p \<noteq> 0 \<and> t \<noteq> 0 \<and> int_truediv t p = Inr q \<longrightarrow>
        response_rate (Some p) (Some t) = Inr (PFloat (py_round q 4))"
    by (simp add: response_rate_def)
  have c: "\<not> int_truthy pieces \<or> \<not> int_truthy total_resp \<longrightarrow>
        response_rate pieces total_resp = Inr (PInt 0)"
    by (auto simp: response_rate_def int_truthy_def split: option.splits)
  have d: "response_rate pieces total_resp \<noteq> Inl ZeroDivisionError"
    by (auto simp: response_rate_def int_truediv_def split: option.splits sum.splits pyfloat.splits)
  have e: "response_rate (Some 0) total_resp = Inr (PInt 0)"
    "response_rate pieces None = Inr (PInt 0)"
    by (auto simp: response_rate_def split: option.splits)
  from a b c d e response_rate_sample show ?thesis by blast
qed


lemma mail_sheet_cells:
  "cell_value mail_sheet ''E'' 2 = CStr ''62656''"
  "cell_value mail_sheet ''D'' 2 = CStr ''Lincoln''"
  "cell_value mail_sheet ''B'' 2 = CInt 1000"
  "cell_value mail_sheet ''F'' 2 = CInt 50"
  "cell_value mail_sheet ''E'' 3 = CStr ''62701''"
  "cell_value mail_sheet ''D'' 3 = CStr ''Springfield''"
  "cell_value mail_sheet ''B'' 3 = CInt 0"
  "cell_value mail_sheet ''F'' 3 = CInt 50"
  "col \<notin> {''E'', ''D'', ''B'', ''F''} \<Longrightarrow> cell_value mail_sheet col row = CNone"
  by (simp_all add: mail_sheet_def)

lemma mail_row2:
  "mail_row (PStr ''e1'') mail_sheet 2 = Inr (Some (PDict
     [(''event_id'', PStr ''e1''), (''campaign_name'', PStr ''WIN BIG''),
      (''zip_code'', PStr ''62656''), (''town'', PStr ''Lincoln''),
      (''pieces_sent'', PInt 1000), (''day1_responses'', PInt 0),
      (''day2_responses'', PInt 0), (''day3_responses'', PInt 0),
      (''day4_responses'', PInt 0), (''day5_responses'', PInt 0),
      (''day6_responses'', PInt 0), (''day7_responses'', PInt 0),
      (''total_responses'', PInt 50), (''response_rate'', PFloat (fl 5 100))]))"
  by (simp add: mail_row_def Let_def mail_sheet_cells s_cell_samples i_cell_samples
      response_rate_sample str_falsy_def or_zero_def)

lemma mail_row3:
  "mail_row (PStr ''e1'') mail_sheet 3 = Inr (Some (PDict
     [(''event_id'', PStr ''e1''), (''campaign_name'', PStr ''WIN BIG''),
      (''zip_code'', PStr ''62701''), (''town'', PStr ''Springfield''),
      (''pieces_sent'', PInt 0), (''day1_responses'', PInt 0),
      (''day2_responses'', PInt 0), (''day3_responses'', PInt 0),
      (''day4_responses'', PInt 0), (''day5_responses'', PInt 0),
      (''day6_responses'', PInt 0), (''day7_responses'', PInt 0),
      (''total_responses'', PInt 50), (''response_rate'', PInt 0)]))"
  by (simp add: mail_row_def Let_def mail_sheet_cells s_cell_samples i_cell_samples
      response_rate_def str_falsy_def or_zero_def)

lemma mail_nbsp_row6:
  "mail_row (PStr ''e1'') nbsp_sheet 6 = Inr (Some (PDict
     [(''event_id'', PStr ''e1''), (''campaign_name'', PStr ''WIN BIG''),
      (''zip_code'', PStr ''62656''), (''town'', PStr ''Lincoln''),
      (''pieces_sent'', PInt 1000), (''day1_responses'', PInt 0),
      (''day2_responses'', PInt 0), (''day3_responses'', PInt 0),
      (''day4_responses'', PInt 0), (''day5_responses'', PInt 0),
      (''day6_responses'', PInt 0), (''day7_responses'', PInt 0),
      (''total_responses'', PInt 50), (''response_rate'', PFloat (fl 5 100))]))"
  by (simp add: mail_row_def Let_def nbsp_sheet_cells nbsp_sheet_blank s_cell_samples
      i_cell_samples i_cell_nbsp response_rate_sample str_falsy_def or_zero_def)

text \<open>
  Rows of the sample sheets: 50 responses to 1000 pieces, zero pieces, and 1000 pieces
  read from a text cell that starts with a no-break space.
\<close>

theorem C5_response_rate_witness:
  "i_cell (cell_value mail_sheet ''B'' 2) = Some 1000
   \<and> i_cell (cell_value mail_sheet ''F'' 2) = Some 50
   \<and> int_truediv 50 1000 = Inr (fl 5 100)
   \<and> py_round (fl 5 100) 4 = fl 5 100
   \<and> (case mail_row (PStr ''e1'') mail_sheet 2 of
         Inr (Some (PDict d)) \<Rightarrow> map_of d ''response_rate'' = Some (PFloat (fl 5 100))
       | _ \<Rightarrow> False)
   \<and> i_cell (cell_value mail_sheet ''B'' 3) = Some 0
   \<and> (case mail_row (PStr ''e1'') mail_sheet 3 of
         Inr (Some (PDict d)) \<Rightarrow> map_of d ''response_rate'' = Some (PInt 0)
       | _ \<Rightarrow> False)
   \<and> i_cell (cell_value nbsp_sheet ''B'' 6) = Some 1000
   \<and> (case mail_row (PStr ''e1'') nbsp_sheet 6 of
         Inr (Some (PDict d)) \<Rightarrow> map_of d ''response_rate'' = Some (PFloat (fl 5 100))
       | _ \<Rightarrow> False)"
  using C5_response_rate [of "PStr ''e1''" mail_sheet 2 _ 1000 50 "fl 5 100" "Some 0" None]
    C5_response_rate [of "PStr ''e1''" mail_sheet 3 _ 1000 50 "fl 5 100" "Some 0" None]
    int_truediv_50_1000 py_round_rate
  by (simp add: mail_row2 mail_row3 mail_sheet_cells i_cell_samples fl_literals
      mail_nbsp_row6 nbsp_sheet_cells i_cell_nbsp del: py_round.simps)

section \<open>The run: event resolution and child writes\<close>

lemma api_sent:
  "api net method table data params st = (x, st') \<Longrightarrow>
     sent st' = sent st @ [api_request method table data params]"
  by (auto simp: api_def Let_def split: prod.splits if_splits option.splits)

lemma post_sent: "sent (post net table data st) = sent st @ [api_request ''post'' table data []]"
  by (cases "api net ''post'' table data [] st") (simp add: post_def api_sent)

lemma not_child_write:
  "\<not> is_child_write sql_request"
  "\<not> is_child_write (api_request method ''events'' data params)"
  "\<not> is_child_write (api_request method ''profiles'' data params)"
  by (simp_all add: is_child_write_def api_request_def table_url_def child_tables_def
      sql_request_def SUPABASE_URL_def)

lemma child_write:
  "table \<in> set child_tables \<Longrightarrow> is_child_write (api_request ''post'' table data params)"
  by (simp add: is_child_write_def api_request_def)

lemma sql_fallback_sent:
  "sql_fallback net ev st = (res, st') \<Longrightarrow>
     \<exists>rs. sent st' = sent st @ rs \<and> list_all (\<lambda>r. \<not> is_child_write r) rs"
  by (auto simp: sql_fallback_def Let_def not_child_write
      split: prod.splits sum.splits if_splits dest!: api_sent)

lemma create_event_sent:
  "create_event net st = (res, st') \<Longrightarrow>
     \<exists>rs. sent st' = sent st @ rs \<and> list_all (\<lambda>r. \<not> is_child_write r) rs"
  by (auto simp: create_event_def not_child_write
      split: prod.splits sum.splits if_splits dest!: api_sent sql_fallback_sent)

lemma resolve_event_sent:
  "resolve_event net st = (res, st') \<Longrightarrow>
     \<exists>rs. sent st' = sent st @ rs \<and> list_all (\<lambda>r. \<not> is_child_write r) rs"
  by (auto simp: resolve_event_def not_child_write
      split: prod.splits sum.splits if_splits dest!: api_sent create_event_sent)

lemma filter_none: "list_all (\<lambda>r. \<not> P r) rs \<Longrightarrow> filter P rs = []"
  by (induction rs) auto

lemma resolve_event_children:
  "resolve_event net st = (res, st') \<Longrightarrow>
     filter is_child_write (sent st') = filter is_child_write (sent st)"
  using resolve_event_sent [of net st res st'] by (auto simp: filter_none)


lemma extends_refl: "extends event_id st st"
  by (simp add: extends_def)

lemma extends_trans:
  "extends event_id st st' \<Longrightarrow> extends event_id st' st'' \<Longrightarrow> extends event_id st st''"
  by (auto simp: extends_def)

lemma fold_post_sent:
  "sent (fold (\<lambda>idx. post net table (f idx)) xs st) =
     sent st @ map (\<lambda>idx. api_request ''post'' table (f idx) []) xs"
  by (induction xs arbitrary: st) (simp_all add: post_sent)

lemma post_batches_sent:
  "sent (post_batches net table data st) =
     sent st @ map (\<lambda>idx. api_request ''post'' table (PList (py_slice data idx (idx + 20))) [])
       (py_range 0 (length data) 20)"
  by (simp add: post_batches_def fold_post_sent)

lemma carries_list:
  "list_all (\<lambda>r. record_event_id r = Some event_id) rs \<Longrightarrow>
     carries event_id (api_request method table (PList rs) params)"
  by (simp add: carries_def api_request_def)

lemma post_extends:
  "table \<in> set child_tables \<Longrightarrow> list_all (\<lambda>r. record_event_id r = Some event_id) rs \<Longrightarrow>
     extends event_id st (post net table (PList rs) st)"
  by (simp add: extends_def post_sent child_write carries_list)

lemma py_slice_subset: "set (py_slice xs a b) \<subseteq> set xs"
  unfolding py_slice_def by (meson set_take_subset set_drop_subset subset_trans)

lemma post_batches_extends:
  assumes "table \<in> set child_tables" "list_all (\<lambda>r. record_event_id r = Some event_id) rs"
  shows "extends event_id st (post_batches net table rs st)"
proof -
  have "list_all (\<lambda>r. record_event_id r = Some event_id) (py_slice rs a b)" for a b
    using assms(2) py_slice_subset [of rs a b] by (auto simp: list_all_iff)
  then show ?thesis
    using assms(1) by (simp add: extends_def post_batches_sent list_all_iff child_write carries_list)
qed

lemma list_all_map_filter:
  "(\<And>x y. f x = Some y \<Longrightarrow> P y) \<Longrightarrow> list_all P (List.map_filter f xs)"
  by (auto simp: list_all_iff set_map_filter)

lemma roster_data_ids:
  "list_all (\<lambda>r. record_event_id r = Some event_id) (roster_data event_id ws)"
  unfolding roster_data_def
  by (rule list_all_map_filter) (auto simp: record_event_id_def dest!: roster_row_Some)

lemma lenders_data_ids:
  "list_all (\<lambda>r. record_event_id r = Some event_id) (lenders_data event_id ws)"
  unfolding lenders_data_def
  by (rule list_all_map_filter)
     (auto simp: record_event_id_def lender_row_def Let_def split: if_splits)

lemma inv_data_ids:
  "list_all (\<lambda>r. record_event_id r = Some event_id) (inv_data event_id ws)"
  unfolding inv_data_def
  by (rule list_all_map_filter)
     (auto simp: record_event_id_def map_of_append_Some dest!: inventory_row_dict)

lemma deals_data_ids:
  "list_all (\<lambda>r. record_event_id r = Some event_id) (deals_data event_id ws)"
  unfolding deals_data_def
  by (rule list_all_map_filter)
     (auto simp: record_event_id_def deal_row_def Let_def split: if_splits)

lemma mail_loop_ids:
  "mail_loop event_id ws rows acc = Inr entries \<Longrightarrow>
     list_all (\<lambda>r. record_event_id r = Some event_id) acc \<Longrightarrow>
     list_all (\<lambda>r. record_event_id r = Some event_id) entries"
proof (induction rows arbitrary: acc)
  case Nil
  then show ?case by simp
next
  case (Cons row rows)
  show ?case
  proof (cases "mail_row event_id ws row")
    case (Inl err)
    with Cons.prems show ?thesis by simp
  next
    case (Inr x)
    show ?thesis
    proof (cases x)
      case None
      with Inr Cons show ?thesis by simp
    next
      case (Some entry)
      with Inr mail_row_rate [of event_id ws row entry]
      have "record_event_id entry = Some event_id"
        by (auto simp: record_event_id_def)
      with Cons.prems(2) have "list_all (\<lambda>r. record_event_id r = Some event_id) (acc @ [entry])"
        by simp
      with Cons.IH [of "acc @ [entry]"] Cons.prems(1) Inr Some show ?thesis by simp
    qed
  qed
qed

lemma mail_data_ids:
  "mail_data event_id ws = Inr entries \<Longrightarrow>
     list_all (\<lambda>r. record_event_id r = Some event_id) entries"
  unfolding mail_data_def by (erule mail_loop_ids) simp

lemma child_tables_mem:
  "''roster'' \<in> set child_tables" "''lenders'' \<in> set child_tables"
  "''vehicle_inventory'' \<in> set child_tables" "''deals_v2'' \<in> set child_tables"
  "''mail_tracking'' \<in> set child_tables" "''event_config'' \<in> set child_tables"
  by (simp_all add: child_tables_def)

lemma seed_roster_extends: "extends event_id st (seed_roster net event_id ws st)"
  by (simp add: seed_roster_def post_extends child_tables_mem roster_data_ids)

lemma seed_lenders_extends: "extends event_id st (seed_lenders net event_id ws st)"
  by (simp add: seed_lenders_def post_extends child_tables_mem lenders_data_ids extends_refl)

lemma seed_inventory_extends: "extends event_id st (seed_inventory net event_id ws st)"
  by (simp add: seed_inventory_def post_batches_extends child_tables_mem inv_data_ids extends_refl)

lemma seed_deals_extends: "extends event_id st (seed_deals net event_id ws st)"
  by (simp add: seed_deals_def post_extends child_tables_mem deals_data_ids extends_refl)

lemma seed_mail_extends:
  "seed_mail net event_id ws st = (res, st') \<Longrightarrow> extends event_id st st'"
  by (auto simp: seed_mail_def post_batches_extends child_tables_mem mail_data_ids extends_refl
      split: sum.splits if_splits)

lemma seed_config_extends: "extends event_id st (seed_config net event_id st)"
proof -
  have "is_child_write (api_request ''post'' ''event_config'' (config event_id) [])"
    by (rule child_write) (rule child_tables_mem)
  moreover have "carries event_id (api_request ''post'' ''event_config'' (config event_id) [])"
    by (simp add: carries_def api_request_def config_def)
  ultimately show ?thesis
    by (simp add: seed_config_def extends_def post_sent)
qed

lemma seed_children_extends:
  assumes "seed_children net wb event_id st = (res, st')"
  shows "extends event_id st st'"
proof -
  note ext = extends_trans [OF seed_roster_extends seed_lenders_extends]
  show ?thesis
  proof (cases "wb ''Roster & Tables''")
    case None
    with assms show ?thesis by (simp add: seed_children_def extends_refl)
  next
    case (Some ws)
    let ?st2 = "seed_lenders net event_id ws (seed_roster net event_id ws st)"
    have e2: "extends event_id st ?st2" by (rule ext)
    show ?thesis
    proof (cases "wb ''INVENTORY''")
      case None
      with assms Some e2 show ?thesis by (simp add: seed_children_def)
    next
      case inv: (Some ws_inv)
      let ?st3 = "seed_inventory net event_id ws_inv ?st2"
      have e3: "extends event_id st ?st3"
        by (rule extends_trans [OF e2 seed_inventory_extends])
      show ?thesis
      proof (cases "wb ''DEAL LOG''")
        case None
        with assms Some inv e3 show ?thesis by (simp add: seed_children_def)
      next
        case deals: (Some ws_deals)
        let ?st4 = "seed_deals net event_id ws_deals ?st3"
        have e4: "extends event_id st ?st4"
          by (rule extends_trans [OF e3 seed_deals_extends])
        show ?thesis
        proof (cases "wb ''MAIL TRACKING''")
          case None
          with assms Some inv deals e4 show ?thesis by (simp add: seed_children_def)
        next
          case mail: (Some ws_mail)
          obtain r5 st5 where m: "seed_mail net event_id ws_mail ?st4 = (r5, st5)"
            by (cases "seed_mail net event_id ws_mail ?st4")
          have e5: "extends event_id st st5"
            by (rule extends_trans [OF e4 seed_mail_extends [OF m]])
          have e6: "extends event_id st (seed_config net event_id st5)"
            by (rule extends_trans [OF e5 seed_config_extends])
          from assms Some inv deals mail m e5 e6 show ?thesis
            by (cases r5) (auto simp: seed_children_def Let_def)
        qed
      qed
    qed
  qed
qed


text \<open>
  C1. When the resolution of the event ends with an identifier that is not true
  (\<^verbatim>\<open>None\<close> after the query, the create call, the SQL path and the last query have all
  failed), the script ends with \<^verbatim>\<open>sys.exit(1)\<close> in the state the resolution left, and
  no request to a child table has been sent; the same holds when the resolution raises.
  In every run, a write to a child table is sent only after the resolution has returned
  a true identifier.
\<close>

theorem C1_no_event_no_children:
  "(resolve_event net st = (Inr event_id, st1) \<and> \<not> truthy event_id \<longrightarrow>
      seed net wb st = (Inl (SystemExit 1), st1)
      \<and> filter is_child_write (sent st1) = filter is_child_write (sent st))
   \<and> (resolve_event net st = (Inl err, st1) \<longrightarrow>
        seed net wb st = (Inl err, st1)
        \<and> filter is_child_write (sent st1) = filter is_child_write (sent st))
   \<and> (filter is_child_write (sent (snd (seed net wb st))) \<noteq> filter is_child_write (sent st)
        \<longrightarrow> (\<exists>eid st'. resolve_event net st = (Inr eid, st') \<and> truthy eid))"
proof -
  have a: "resolve_event net st = (Inr event_id, st1) \<and> \<not> truthy event_id \<longrightarrow>
      seed net wb st = (Inl (SystemExit 1), st1)
      \<and> filter is_child_write (sent st1) = filter is_child_write (sent st)"
    by (auto simp: seed_def dest: resolve_event_children)
  have b: "resolve_event net st = (Inl err, st1) \<longrightarrow>
        seed net wb st = (Inl err, st1)
        \<and> filter is_child_write (sent st1) = filter is_child_write (sent st)"
    by (auto simp: seed_def dest: resolve_event_children)
  have c: "filter is_child_write (sent (snd (seed net wb st))) \<noteq> filter is_child_write (sent st)
        \<longrightarrow> (\<exists>eid st'. resolve_event net st = (Inr eid, st') \<and> truthy eid)"
  proof (cases "resolve_event net st")
    case (Pair res st')
    show ?thesis
    proof (cases res)
      case (Inl e)
      with Pair resolve_event_children [of net st res st'] show ?thesis
        by (simp add: seed_def)
    next
      case (Inr eid)
      with Pair resolve_event_children [of net st res st'] show ?thesis
        by (cases "truthy eid") (simp_all add: seed_def)
    qed
  qed
  from a b c show ?thesis by blast
qed

text \<open>
  C8. In every run, all requests sent after the resolution of the event are writes to
  child tables, and every record in them (roster, lender, inventory, deal and mail
  entries, and the event configuration) has the identifier the resolution returned in
  its \<open>event_id\<close> field; the requests of the resolution itself write to no child table.
\<close>

theorem C8_children_carry_event_id:
  "resolve_event net st = (Inr event_id, st1) \<and> seed net wb st = (res, st') \<longrightarrow>
     (\<exists>reqs. sent st' = sent st1 @ reqs
        \<and> (\<forall>req\<in>set reqs. is_child_write req \<and> carries event_id req)
        \<and> (\<forall>req\<in>set (sent st1) - set (sent st). \<not> is_child_write req))"
proof
  assume "resolve_event net st = (Inr event_id, st1) \<and> seed net wb st = (res, st')"
  then have h: "resolve_event net st = (Inr event_id, st1)" "seed net wb st = (res, st')"
    by blast+
  from h resolve_event_sent [of net st "Inr event_id" st1]
  have pre: "\<forall>req\<in>set (sent st1) - set (sent st). \<not> is_child_write req"
    by (auto simp: list_all_iff)
  have "extends event_id st1 st'"
  proof (cases "truthy event_id")
    case True
    with h have "seed_children net wb event_id st1 = (res, st')"
      by (simp add: seed_def)
    then show ?thesis by (rule seed_children_extends)
  next
    case False
    with h have "st' = st1" by (simp add: seed_def)
    then show ?thesis by (simp add: extends_refl)
  qed
  with pre show "\<exists>reqs. sent st' = sent st1 @ reqs
        \<and> (\<forall>req\<in>set reqs. is_child_write req \<and> carries event_id req)
        \<and> (\<forall>req\<in>set (sent st1) - set (sent st). \<not> is_child_write req)"
    by (auto simp: extends_def list_all_iff)
qed

text \<open>
  C9. When the backend answers the event query with a non-empty list whose first row has
  an \<open>id\<close> and a \<open>name\<close>, and the query leaves the backend as it is, the resolution
  returns that \<open>id\<close> and sends the query and nothing else; run a second time it returns
  the same identifier, again with the query alone. No create call is sent in either run.
\<close>

theorem C9_resolution_idempotent:
  "net events_get (world st) = (r, world st) \<and> status_code r < 400
     \<and> resp_json r = Some (PList (PDict row # rows))
     \<and> map_of row ''id'' = Some event_id \<and> map_of row ''name'' = Some name \<longrightarrow>
   resolve_event net st = (Inr event_id, st\<lparr>sent := sent st @ [events_get]\<rparr>)
   \<and> resolve_event net (st\<lparr>sent := sent st @ [events_get]\<rparr>) =
       (Inr event_id, st\<lparr>sent := sent st @ [events_get, events_get]\<rparr>)
   \<and> req_method events_get = ''get''"
  by (auto simp: resolve_event_def api_def events_get_def Let_def nonempty_def first_field_def
      api_request_def)


lemma api_net404:
  "api net404 method table data params st =
     (PNone, st\<lparr>world := Suc (world st),
        sent := sent st @ [api_request method table data params],
        out := out st @ [''  ERROR 404: not found'']\<rparr>)"
  by (simp add: api_def net404_def str_int_404 Let_def)

lemma resolve_net404:
  "resolve_event net404 (init_run 0) =
     (Inr PNone,
      \<lparr>world = 5,
       sent = [events_get, api_request ''get'' ''profiles'' PNone profiles_query,
               api_request ''post'' ''events'' (PDict (event_data PNone)) [],
               sql_request, events_get],
       out = [''  ERROR 404: not found'', ''  ERROR 404: not found'',
              ''  ERROR 404: not found'', ''  ERROR 404: not found'']\<rparr>)"
  by (simp add: resolve_event_def create_event_def sql_fallback_def api_net404 nonempty_def
      first_id_or_none_def sql_event_id_def net404_def init_run_def events_get_def Let_def)

lemma api_net_existing:
  "api net_existing method table data params st =
     (PList [PDict [(''id'', PStr ''e1''), (''name'', PStr ''Lincoln'')]],
      st\<lparr>sent := sent st @ [api_request method table data params]\<rparr>)"
  by (simp add: api_def net_existing_def Let_def)

lemma resolve_net_existing:
  "resolve_event net_existing st = (Inr (PStr ''e1''), st\<lparr>sent := sent st @ [events_get]\<rparr>)"
  by (simp add: resolve_event_def api_net_existing nonempty_def first_field_def events_get_def)

lemma post_net_existing:
  "post net_existing table data st = st\<lparr>sent := sent st @ [api_request ''post'' table data []]\<rparr>"
  by (simp add: post_def api_net_existing)

lemma roster_sheet_blank: "5 < row \<Longrightarrow> cell_value roster_sheet col row = CNone"
  by (simp add: roster_sheet_def)

lemma roster_row_blank: "5 < row \<Longrightarrow> roster_row event_id roster_sheet row = None"
  by (simp add: roster_row_def roster_sheet_blank s_cell_def)

lemma roster_data_sample:
  "roster_data (PStr ''e1'') roster_sheet =
     [PDict
       [(''event_id'', PStr ''e1''), (''name'', PStr ''Jane Doe''), (''phone'', PStr ''555-1212''),
        (''role'', PStr ''sales''), (''confirmed'', PBool True),
        (''commission_pct'', PFloat (Finite 1 (- 2)))],
      PDict
       [(''event_id'', PStr ''e1''), (''name'', PStr ''BRYAN ROGERS''), (''phone'', PNone),
        (''role'', PStr ''team_leader''), (''confirmed'', PBool True),
        (''commission_pct'', PFloat (Finite 1 (- 2)))]]"
  by (simp add: roster_data_def map_filter_simps roster_sheet_rows roster_row_blank)

lemma lender_row_sample: "lender_row event_id roster_sheet row = None"
  by (simp add: lender_row_def roster_sheet_def s_cell_def str_falsy_def)

lemma map_filter_none: "(\<And>x. f x = None) \<Longrightarrow> List.map_filter f xs = []"
  by (induction xs) (simp_all add: map_filter_simps)

lemma lenders_data_sample: "lenders_data event_id roster_sheet = []"
  unfolding lenders_data_def by (rule map_filter_none) (rule lender_row_sample)

lemma sample_max_rows:
  "max_row inv_sheet = 4" "max_row mail_sheet = 3" "max_row deals_sheet = 29"
  by (simp_all add: inv_sheet_def mail_sheet_def deals_sheet_def)

lemma inv_data_sample: "length (inv_data (PStr ''e1'') inv_sheet) = 3"
  by (simp add: inv_data_def sample_max_rows map_filter_simps inv_row2 inv_row3 inv_row4)

lemma mail_data_sample: "mail_data (PStr ''e1'') mail_sheet = Inr mail_entries_sample"
  by (simp add: mail_data_def sample_max_rows mail_row2 mail_row3 mail_entries_sample_def)

lemma length_map_filter_all:
  "(\<And>x. x \<in> set xs \<Longrightarrow> f x \<noteq> None) \<Longrightarrow> length (List.map_filter f xs) = length xs"
  by (induction xs) (auto simp: map_filter_simps split: option.splits)

lemma deal_row_sample: "9 \<le> row \<Longrightarrow> deal_row event_id deals_sheet row \<noteq> None"
  by (simp add: deal_row_def deals_sheet_def s_cell_def py_strip_def py_isspace_def
      str_falsy_def Let_def)

lemma length_deals_sample: "length (deals_data event_id deals_sheet) = 21"
proof -
  have "length (deals_data event_id deals_sheet) = length [9..<max_row deals_sheet + 1]"
    unfolding deals_data_def
    by (rule length_map_filter_all, rule deal_row_sample) auto
  then show ?thesis by (simp add: sample_max_rows)
qed

lemma py_range_small:
  assumes "0 < k" "k \<le> 20"
  shows "py_range 0 k 20 = [0]"
proof -
  from assms have "(k - 0 + 20 - 1) div 20 = 1" by simp
  then show ?thesis unfolding py_range_def by simp
qed

lemma post_batches_small:
  "0 < length data \<Longrightarrow> length data \<le> 20 \<Longrightarrow>
     post_batches net table data st = post net table (PList data) st"
  by (simp add: post_batches_def py_range_small py_slice_def)

lemma seed_net_existing:
  "seed net_existing sample_wb (init_run 0) =
     (Inr (), \<lparr>world = 0, sent = events_get # sample_children, out = []\<rparr>)"
proof -
  have d: "deals_data (PStr ''e1'') deals_sheet \<noteq> []"
    using length_deals_sample [of "PStr ''e1''"] by auto
  have iv: "inv_data (PStr ''e1'') inv_sheet \<noteq> []"
    using inv_data_sample by auto
  have m: "mail_entries_sample \<noteq> []" "length mail_entries_sample = 2"
    by (simp_all add: mail_entries_sample_def)
  show ?thesis
    by (simp add: seed_def resolve_net_existing seed_children_def sample_wb_def Let_def
        seed_roster_def seed_lenders_def seed_inventory_def seed_deals_def seed_mail_def
        seed_config_def post_net_existing lenders_data_sample inv_data_sample mail_data_sample
        post_batches_small d iv m init_run_def sample_children_def)
qed


lemma sample_children_good:
  "list_all (\<lambda>req. is_child_write req \<and> carries (PStr ''e1'') req) sample_children"
proof -
  have "extends (PStr ''e1'') \<lparr>world = 0, sent = [events_get], out = []\<rparr>
          \<lparr>world = 0::nat, sent = events_get # sample_children, out = []\<rparr>"
    using seed_children_extends [of net_existing sample_wb "PStr ''e1''"
        "\<lparr>world = 0, sent = [events_get], out = []\<rparr>" "Inr ()"
        "\<lparr>world = 0, sent = events_get # sample_children, out = []\<rparr>"]
      seed_net_existing
    by (simp add: seed_def resolve_net_existing init_run_def)
  then show ?thesis by (simp add: extends_def)
qed

text \<open>
  A backend that rejects every request: all four paths fail and the run stops before
  any child write. A backend that holds an event: the children are written.
\<close>

theorem C1_no_event_no_children_witness:
  "resolve_event net404 (init_run 0) = (Inr PNone, failed_run)
   \<and> seed net404 sample_wb (init_run 0) = (Inl (SystemExit 1), failed_run)
   \<and> filter is_child_write (sent failed_run) = []
   \<and> resolve_event net_existing (init_run 0) =
       (Inr (PStr ''e1''), \<lparr>world = 0, sent = [events_get], out = []\<rparr>)
   \<and> filter is_child_write (sent (snd (seed net_existing sample_wb (init_run 0))))
       = sample_children
   \<and> length sample_children = 5"
proof -
  have r: "resolve_event net404 (init_run 0) = (Inr PNone, failed_run)"
    by (simp add: resolve_net404 failed_run_def)
  have e: "\<not> is_child_write events_get"
    by (simp add: events_get_def not_child_write)
  have f: "filter is_child_write sample_children = sample_children"
    using sample_children_good by (simp add: list_all_iff)
  have l: "length sample_children = 5"
    by (simp add: sample_children_def)
  have re: "resolve_event net_existing (init_run 0) =
       (Inr (PStr ''e1''), \<lparr>world = 0, sent = [events_get], out = []\<rparr>)"
    by (simp add: resolve_net_existing init_run_def)
  have s: "filter is_child_write (sent (snd (seed net_existing sample_wb (init_run 0))))
       = sample_children"
    by (simp add: seed_net_existing e f)
  have i: "sent (init_run (0::nat)) = []"
    by (simp add: init_run_def)
  show ?thesis
    using C1_no_event_no_children [of net404 "init_run 0" PNone failed_run sample_wb] r l re s i
    by simp
qed

text \<open>The run on the sample workbook against a backend that holds the event \<open>e1\<close>.\<close>

theorem C8_children_carry_event_id_witness:
  "resolve_event net_existing (init_run 0) =
     (Inr (PStr ''e1''), \<lparr>world = 0, sent = [events_get], out = []\<rparr>)
   \<and> seed net_existing sample_wb (init_run 0) =
       (Inr (), \<lparr>world = 0, sent = events_get # sample_children, out = []\<rparr>)
   \<and> list_all (\<lambda>req. is_child_write req \<and> carries (PStr ''e1'') req) sample_children
   \<and> length sample_children = 5"
proof -
  have r: "resolve_event net_existing (init_run 0) =
     (Inr (PStr ''e1''), \<lparr>world = 0, sent = [events_get], out = []\<rparr>)"
    by (simp add: resolve_net_existing init_run_def)
  have l: "length sample_children = 5"
    by (simp add: sample_children_def)
  from C8_children_carry_event_id [of net_existing "init_run 0" "PStr ''e1''"
      "\<lparr>world = 0, sent = [events_get], out = []\<rparr>" sample_wb "Inr ()"
      "\<lparr>world = 0, sent = events_get # sample_children, out = []\<rparr>"] r seed_net_existing
  have "list_all (\<lambda>req. is_child_write req \<and> carries (PStr ''e1'') req) sample_children"
    by (simp add: list_all_iff)
  with r seed_net_existing l show ?thesis by simp
qed

text \<open>Two resolutions in a row against a backend that holds the event \<open>e1\<close>.\<close>

theorem C9_resolution_idempotent_witness:
  "resolve_event net_existing (init_run 0) =
     (Inr (PStr ''e1''), \<lparr>world = 0, sent = [events_get], out = []\<rparr>)
   \<and> resolve_event net_existing \<lparr>world = 0, sent = [events_get], out = []\<rparr> =
     (Inr (PStr ''e1''), \<lparr>world = 0, sent = [events_get, events_get], out = []\<rparr>)
   \<and> req_method events_get = ''get''"
  using C9_resolution_idempotent [of net_existing "init_run 0"
      "\<lparr>status_code = 200, resp_text = ''[...]'',
        resp_json = Some (PList [PDict [(''id'', PStr ''e1''), (''name'', PStr ''Lincoln'')]])\<rparr>"
      "[(''id'', PStr ''e1''), (''name'', PStr ''Lincoln'')]" "[]" "PStr ''e1''" "PStr ''Lincoln''"]
  by (simp add: net_existing_def init_run_def)

subsection \<open>Batches\<close>

text \<open>
  The inventory and the mail entries are posted in consecutive batches of at most 20: the
  batch loop sends one request for each index of \<^verbatim>\<open>range(0, len(data), 20)\<close>, that is
  \<open>(len(data) + 19) div 20\<close> requests, and the batches in order give the data back.
\<close>

lemma chunks_take:
  "concat (map (\<lambda>k. take c (drop (k * c) xs)) [0..<m]) = take (m * c) xs"
proof (induction m)
  case 0
  then show ?case by simp
next
  case (Suc m)
  have "take (m * c + c) xs = take (m * c) xs @ take c (drop (m * c) xs)"
    by (rule take_add)
  with Suc show ?case by (simp add: add.commute)
qed

lemma length_py_range: "length (py_range 0 k 20) = (k + 19) div 20"
  by (simp add: py_range_def)

lemma chunks_concat:
  "concat (map (\<lambda>idx. py_slice data idx (idx + 20)) (py_range 0 (length data) 20)) = data"
proof -
  have "concat (map (\<lambda>idx. py_slice data idx (idx + 20)) (py_range 0 (length data) 20))
      = concat (map (\<lambda>k. take 20 (drop (k * 20) data)) [0..<(length data + 19) div 20])"
    by (simp add: py_range_def py_slice_def comp_def add.commute)
  also have "\<dots> = take ((length data + 19) div 20 * 20) data"
    by (rule chunks_take)
  also have "\<dots> = data"
    by (rule take_all) presburger
  finally show ?thesis .
qed

lemma seed_inventory_sent:
  "sent (seed_inventory net event_id ws st) =
     sent st @ map (\<lambda>idx. api_request ''post'' ''vehicle_inventory''
                      (PList (py_slice (inv_data event_id ws) idx (idx + 20))) [])
       (py_range 0 (length (inv_data event_id ws)) 20)"
  by (simp add: seed_inventory_def post_batches_sent py_range_def)

lemma seed_deals_sent:
  "sent (seed_deals net event_id ws st) =
     sent st @ (if deals_data event_id ws = [] then []
                else [api_request ''post'' ''deals_v2'' (PList (deals_data event_id ws)) []])"
  by (simp add: seed_deals_def post_sent)

lemma roster_data_blank: "roster_data event_id blank_sheet = []"
  unfolding roster_data_def
  by (rule map_filter_none) (simp add: roster_row_def blank_sheet_def s_cell_def)

text \<open>
  C4 does not hold for the deals: they are posted in one request whatever their number.
  A deal log with 21 qualifying rows gives one request with 21 records, where batches of
  20 would give two requests. (The roster is posted in one request even when it is empty,
  where there would be no batch.)
\<close>

theorem C4_deals_single_write:
  "length (deals_data (PStr ''e1'') deals_sheet) = 21
   \<and> sent (seed_deals net_created (PStr ''e1'') deals_sheet (init_run 0)) =
       [api_request ''post'' ''deals_v2'' (PList (deals_data (PStr ''e1'') deals_sheet)) []]
   \<and> length (py_range 0 21 20) = 2
   \<and> sent (seed_roster net_created (PStr ''e1'') blank_sheet (init_run 0)) =
       [api_request ''post'' ''roster'' (PList []) []]
   \<and> length (py_range 0 0 20) = 0"
proof -
  have d: "deals_data (PStr ''e1'') deals_sheet \<noteq> []"
    using length_deals_sample [of "PStr ''e1''"] by auto
  show ?thesis
    by (simp add: length_deals_sample seed_deals_sent d init_run_def length_py_range
        seed_roster_def post_sent roster_data_blank)
qed

end
